theory Spec2Isabelle
  imports Main "HOL-Library.Char_ord" "HOL-Library.List_Lexorder"
begin

section \<open>Containers of the C++ standard library\<close>

text \<open>
  A \<^verbatim>\<open>std::map<K, V>\<close> is an association list whose iteration order is the list order.
  \<^verbatim>\<open>m[k] = v\<close> puts the entry at the place the key order gives it, so a map that is only
  ever built by assignment is in ascending key order. Keys are \<^verbatim>\<open>std::string\<close>s, compared
  bytewise and lexicographically, which is the order of \<open>string\<close> here.
\<close>

type_synonym ('k, 'v) std_map = "('k \<times> 'v) list"

definition map_find :: "'k \<Rightarrow> ('k, 'v) std_map \<Rightarrow> 'v option" where
  "map_find k m = map_of m k"

fun map_assign :: "'k::linorder \<Rightarrow> 'v \<Rightarrow> ('k, 'v) std_map \<Rightarrow> ('k, 'v) std_map" where
  "map_assign k v [] = [(k, v)]"
| "map_assign k v ((k', v') # m) =
     (if k < k' then (k, v) # (k', v') # m
      else if k = k' then (k, v) # m
      else (k', v') # map_assign k v m)"

text \<open>\<^verbatim>\<open>m[k]\<close> as a read: a missing key is inserted with the default value \<open>d\<close> first.\<close>

definition map_index :: "'k::linorder \<Rightarrow> 'v \<Rightarrow> ('k, 'v) std_map \<Rightarrow> 'v \<times> ('k, 'v) std_map" where
  "map_index k d m =
     (case map_find k m of
        Some v \<Rightarrow> (v, m)
      | None \<Rightarrow> (d, map_assign k d m))"

definition map_erase :: "'k \<Rightarrow> ('k, 'v) std_map \<Rightarrow> ('k, 'v) std_map" where
  "map_erase k m = filter (\<lambda>kv. fst kv \<noteq> k) m"

text \<open>The invariant of a \<^verbatim>\<open>std::map\<close>: strictly ascending keys.\<close>

definition std_map_inv :: "('k::linorder, 'v) std_map \<Rightarrow> bool" where
  "std_map_inv m = sorted_wrt (<) (map fst m)"

section \<open>Logging and exceptions\<close>

text \<open>
  The console_bridge sink is a list of (level, message) pairs, oldest first. A message
  is named after the format string of its call in the source, and its arguments are left
  out; \<open>Banner\<close> carries the text a plugin gives to the registration macro.

  \<^item> ClassLoader (class\_loader.cpp, class\_loader.hpp): \<open>Constructing_new_ClassLoader\<close>
    "Constructing new ClassLoader (%p) bound to library %s.", \<open>Destroying_class_loader\<close>
    "Destroying class loader, unloading associated library...",
    \<open>SEVERE_WARNING_objects_exist\<close> "SEVERE WARNING!!! Attempting to unload library while
    objects created by this loader exist in the heap! ... The library will NOT be unloaded.",
    \<open>Managed_instance_after_unmanaged\<close> "An attempt is being made to create a managed plugin
    instance ...", \<open>Calling_onPluginDeletion\<close> "Calling onPluginDeletion() for obj ptr = %p.",
    \<open>Cannot_unload_unmanaged_instance_created\<close> "Cannot unload library %s even though last
    shared pointer went out of scope. ...".
  \<^item> MultiLibraryClassLoader: \<open>MultiLibraryClassLoader_attempting_to_create_instance\<close>
    "Attempting to create instance of class type %s.".
  \<^item> AbstractMetaObjectBase: \<open>Creating_MetaObject\<close> "Creating MetaObject %p ...",
    \<open>Destroying_MetaObject\<close> "Destroying MetaObject %p ...".
  \<^item> class\_loader\_core: \<open>Registering_plugin_factory\<close> "Registering plugin factory for class
    = %s, ...", \<open>ALERT_non_pure_plugin_library\<close> "ALERT!!! This can happen if you build plugin
    libraries that contain more than just plugins ...", \<open>SEVERE_WARNING_namespace_collision\<close>
    "SEVERE WARNING!!! A namespace collision has occurred with plugin factory for class %s.
    ...", \<open>Registration_complete\<close> "Registration of %s complete ...",
    \<open>No_metaobject_exists\<close> "No metaobject exists for class type %s.",
    \<open>ALERT_metaobject_has_no_owner\<close> "ALERT!!! A metaobject (i.e. factory) exists for desired
    class, but has no owner. ...", \<open>Created_instance\<close> "Created instance of type %s and
    object pointer = %p", \<open>Inserting_MetaObject_into_graveyard\<close> "Inserting MetaObject ...
    into graveyard", \<open>Removing_MetaObjects\<close> "Removing MetaObjects associated with library
    %s and class loader %p ...", \<open>Metaobjects_removed\<close> "Metaobjects removed.",
    \<open>Tagging_existing_MetaObject\<close> "Tagging existing MetaObject %p ... with class loader
    %p ...", \<open>Resurrected_metaobject_from_graveyard\<close> "Resurrected factory metaobject from
    graveyard, ...", \<open>Purging_metaobject_from_graveyard\<close> "Purging factory metaobject from
    graveyard, ...", \<open>Attempting_to_load_library\<close> "Attempting to load library %s on behalf
    of ClassLoader handle %p...", \<open>Library_already_in_memory\<close> "Library already in memory,
    but binding existing MetaObjects to loader if necesesary.", \<open>Successfully_loaded_library\<close>
    "Successfully loaded library %s into memory ...",
    \<open>No_metaobjects_registered_checking_graveyard\<close> "Though the library %s was just loaded, it
    seems no factory metaobjects were registered. Checking factory graveyard ...",
    \<open>Library_generated_new_metaobjects\<close> "Library %s generated new factory metaobjects on
    load. ...", \<open>Cannot_unload_any_library\<close> "Cannot unload %s or ANY other library as a
    non-pure plugin library was opened. ...", \<open>Unloading_library\<close> "Unloading library %s on
    behalf of ClassLoader %p...", \<open>No_more_MetaObjects_unloading_library\<close> "There are no more
    MetaObjects left for %s so unloading library and removing from loaded library vector.",
    \<open>MetaObjects_still_remain\<close> "MetaObjects still remain in memory meaning other
    ClassLoaders are still using library, keeping library %s open.",
    \<open>Attempt_to_unload_unknown_library\<close> "Attempt to unload library %s that class\_loader is
    unaware of or is already unloaded".
\<close>

datatype log_level = Debug | Inform | Warn | Error

datatype message =
    Constructing_new_ClassLoader
  | Destroying_class_loader
  | SEVERE_WARNING_objects_exist
  | Managed_instance_after_unmanaged
  | Calling_onPluginDeletion
  | Cannot_unload_unmanaged_instance_created
  | MultiLibraryClassLoader_attempting_to_create_instance
  | Creating_MetaObject
  | Destroying_MetaObject
  | Registering_plugin_factory
  | ALERT_non_pure_plugin_library
  | SEVERE_WARNING_namespace_collision
  | Registration_complete
  | No_metaobject_exists
  | ALERT_metaobject_has_no_owner
  | Created_instance
  | Inserting_MetaObject_into_graveyard
  | Removing_MetaObjects
  | Metaobjects_removed
  | Tagging_existing_MetaObject
  | Resurrected_metaobject_from_graveyard
  | Purging_metaobject_from_graveyard
  | Attempting_to_load_library
  | Library_already_in_memory
  | Successfully_loaded_library
  | No_metaobjects_registered_checking_graveyard
  | Library_generated_new_metaobjects
  | Cannot_unload_any_library
  | Unloading_library
  | No_more_MetaObjects_unloading_library
  | MetaObjects_still_remain
  | Attempt_to_unload_unknown_library
  | Banner string

type_synonym console = "(log_level \<times> message) list"

text \<open>
  The exceptions of exceptions.hpp. \<open>NullPointerDereference\<close> is no exception of the
  source: it marks a member call through a null \<^verbatim>\<open>ClassLoader *\<close>, where the C++ program
  has left defined behaviour.
\<close>

datatype exception =
    LibraryLoadException
  | LibraryUnloadException
  | CreateClassException
  | NoClassLoaderExistsException
  | NullPointerDereference

section \<open>meta\_object.cpp\<close>

text \<open>A \<^verbatim>\<open>ClassLoader *\<close> is the address of a loader, or \<open>None\<close> for \<^verbatim>\<open>nullptr\<close>.\<close>

type_synonym loader_ptr = "nat option"

text \<open>A data member \<^verbatim>\<open>x_\<close> of the source is the record field \<open>x'\<close>.\<close>

record AbstractMetaObjectBaseImpl =
  associated_class_loaders' :: "loader_ptr list"
  associated_library_path' :: string
  base_class_name' :: string
  class_name' :: string
  typeid_base_class_name' :: string

definition AbstractMetaObjectBase :: "string \<Rightarrow> string \<Rightarrow> string \<Rightarrow> AbstractMetaObjectBaseImpl" where
  "AbstractMetaObjectBase class_name base_class_name typeid_base_class_name =
     \<lparr> associated_class_loaders' = [],
       associated_library_path' = ''Unknown'',
       base_class_name' = base_class_name,
       class_name' = class_name,
       typeid_base_class_name' = typeid_base_class_name \<rparr>"

definition setAssociatedLibraryPath :: "string \<Rightarrow> AbstractMetaObjectBaseImpl \<Rightarrow> AbstractMetaObjectBaseImpl" where
  "setAssociatedLibraryPath library_path obj = obj\<lparr>associated_library_path' := library_path\<rparr>"

definition addOwningClassLoader :: "loader_ptr \<Rightarrow> AbstractMetaObjectBaseImpl \<Rightarrow> AbstractMetaObjectBaseImpl" where
  "addOwningClassLoader loader obj =
     (let v = associated_class_loaders' obj
      in if loader \<notin> set v
         then obj\<lparr>associated_class_loaders' := v @ [loader]\<rparr>
         else obj)"

definition removeOwningClassLoader :: "loader_ptr \<Rightarrow> AbstractMetaObjectBaseImpl \<Rightarrow> AbstractMetaObjectBaseImpl" where
  "removeOwningClassLoader loader obj =
     (let v = associated_class_loaders' obj
      in if loader \<in> set v
         then obj\<lparr>associated_class_loaders' := remove1 loader v\<rparr>
         else obj)"

definition isOwnedBy :: "loader_ptr \<Rightarrow> AbstractMetaObjectBaseImpl \<Rightarrow> bool" where
  "isOwnedBy loader obj = (loader \<in> set (associated_class_loaders' obj))"

definition isOwnedByAnybody :: "AbstractMetaObjectBaseImpl \<Rightarrow> bool" where
  "isOwnedByAnybody obj = (length (associated_class_loaders' obj) > 0)"

definition getAssociatedClassLoadersCount :: "AbstractMetaObjectBaseImpl \<Rightarrow> nat" where
  "getAssociatedClassLoadersCount obj = length (associated_class_loaders' obj)"

text \<open>A caller's sequence of owner operations on one meta object.\<close>

datatype owner_op = AddOwner loader_ptr | RemoveOwner loader_ptr

fun owner_step :: "AbstractMetaObjectBaseImpl \<Rightarrow> owner_op \<Rightarrow> AbstractMetaObjectBaseImpl" where
  "owner_step obj (AddOwner loader) = addOwningClassLoader loader obj"
| "owner_step obj (RemoveOwner loader) = removeOwningClassLoader loader obj"

definition owner_steps :: "AbstractMetaObjectBaseImpl \<Rightarrow> owner_op list \<Rightarrow> AbstractMetaObjectBaseImpl" where
  "owner_steps obj ops = foldl owner_step obj ops"

section \<open>class\_loader\_core: the state of the process\<close>

type_synonym LibraryPath = string
type_synonym ClassName = string
type_synonym BaseClassName = string

text \<open>An \<^verbatim>\<open>AbstractMetaObjectBase *\<close> is an address in the heap of meta objects.\<close>

type_synonym meta_ptr = nat

type_synonym FactoryMap = "(ClassName, meta_ptr) std_map"
type_synonym BaseToFactoryMapMap = "(BaseClassName, FactoryMap) std_map"
type_synonym MetaObjectVector = "meta_ptr list"

text \<open>
  The handle \<^verbatim>\<open>std::shared_ptr<rcpputils::SharedLibrary>\<close> of an open library; it is never
  null in the loaded library vector.
\<close>

datatype SharedLibrary = SharedLibrary LibraryPath

type_synonym LibraryPair = "LibraryPath \<times> SharedLibrary"
type_synonym LibraryVector = "LibraryPair list"

text \<open>The data members of class ClassLoader (class\_loader.hpp); the mutexes are left out.\<close>

record ClassLoader =
  ondemand_load_unload' :: bool
  library_path' :: string
  load_ref_count' :: int
  plugin_ref_count' :: int

text \<open>
  The statics of the library and the two heaps. Each function-local static of
  class\_loader\_core.cpp is the field named after the accessor that returns a reference
  to it. Execution is sequential: the recursive mutexes are not part of the state.
\<close>

record process =
  getGlobalPluginBaseToFactoryMapMap :: BaseToFactoryMapMap
  getMetaObjectGraveyard :: MetaObjectVector
  getLoadedLibraryVector :: LibraryVector
  getCurrentlyLoadingLibraryNameReference :: string
  getCurrentlyActiveClassLoaderReference :: loader_ptr
  hasANonPurePluginLibraryBeenOpenedReference :: bool
  has_unmananged_instance_been_created' :: bool
  class_loader_ptrs' :: "nat list"
  meta_objects :: "meta_ptr \<Rightarrow> AbstractMetaObjectBaseImpl"
  meta_objects_lim :: nat
  meta_objects_deleted :: "meta_ptr list"
  class_loaders :: "nat \<Rightarrow> ClassLoader"
  class_loaders_lim :: nat
  console_bridge :: console

text \<open>The process before anything of the library has run.\<close>

definition process_start :: process where
  "process_start =
     \<lparr> getGlobalPluginBaseToFactoryMapMap = [],
       getMetaObjectGraveyard = [],
       getLoadedLibraryVector = [],
       getCurrentlyLoadingLibraryNameReference = [],
       getCurrentlyActiveClassLoaderReference = None,
       hasANonPurePluginLibraryBeenOpenedReference = False,
       has_unmananged_instance_been_created' = False,
       class_loader_ptrs' = [],
       meta_objects = (\<lambda>_. AbstractMetaObjectBase [] [] ''UNSET''),
       meta_objects_lim = 0,
       meta_objects_deleted = [],
       class_loaders = (\<lambda>_. \<lparr> ondemand_load_unload' = False, library_path' = [],
                                load_ref_count' = 0, plugin_ref_count' = 0 \<rparr>),
       class_loaders_lim = 0,
       console_bridge = [] \<rparr>"

definition CONSOLE_BRIDGE_log :: "log_level \<Rightarrow> message \<Rightarrow> process \<Rightarrow> process" where
  "CONSOLE_BRIDGE_log level msg s = s\<lparr>console_bridge := console_bridge s @ [(level, msg)]\<rparr>"

abbreviation CONSOLE_BRIDGE_logDebug :: "message \<Rightarrow> process \<Rightarrow> process" where
  "CONSOLE_BRIDGE_logDebug \<equiv> CONSOLE_BRIDGE_log Debug"

abbreviation CONSOLE_BRIDGE_logInform :: "message \<Rightarrow> process \<Rightarrow> process" where
  "CONSOLE_BRIDGE_logInform \<equiv> CONSOLE_BRIDGE_log Inform"

abbreviation CONSOLE_BRIDGE_logWarn :: "message \<Rightarrow> process \<Rightarrow> process" where
  "CONSOLE_BRIDGE_logWarn \<equiv> CONSOLE_BRIDGE_log Warn"

abbreviation CONSOLE_BRIDGE_logError :: "message \<Rightarrow> process \<Rightarrow> process" where
  "CONSOLE_BRIDGE_logError \<equiv> CONSOLE_BRIDGE_log Error"

text \<open>A call of a member function of the meta object at address \<open>p\<close> that writes to it.\<close>

definition meta_object_call ::
  "meta_ptr \<Rightarrow> (AbstractMetaObjectBaseImpl \<Rightarrow> AbstractMetaObjectBaseImpl) \<Rightarrow> process \<Rightarrow> process" where
  "meta_object_call p f s = s\<lparr>meta_objects := (meta_objects s)(p := f (meta_objects s p))\<rparr>"

text \<open>
  \<^verbatim>\<open>new impl::MetaObject<Derived, Base>(class_name, base_class_name)\<close>: the constructor of
  AbstractMetaObjectBase runs (and logs) at a fresh address; \<open>typeid_Base\<close> is
  \<^verbatim>\<open>typeid(Base).name()\<close>.
\<close>

definition new_MetaObject :: "string \<Rightarrow> string \<Rightarrow> string \<Rightarrow> process \<Rightarrow> meta_ptr \<times> process" where
  "new_MetaObject class_name base_class_name typeid_Base s =
     (let p = meta_objects_lim s;
          s1 = s\<lparr>meta_objects := (meta_objects s)
                    (p := AbstractMetaObjectBase class_name base_class_name typeid_Base),
                  meta_objects_lim := Suc p\<rparr>
      in (p, CONSOLE_BRIDGE_logDebug Creating_MetaObject s1))"

definition getFactoryMapForBaseClass :: "string \<Rightarrow> process \<Rightarrow> FactoryMap \<times> process" where
  "getFactoryMapForBaseClass typeid_base_class_name s =
     (let factoryMapMap = getGlobalPluginBaseToFactoryMapMap s;
          base_class_name = typeid_base_class_name;
          factoryMapMap1 =
            (if map_find base_class_name factoryMapMap = None
             then map_assign base_class_name [] factoryMapMap
             else factoryMapMap);
          (factoryMap, factoryMapMap2) = map_index base_class_name [] factoryMapMap1
      in (factoryMap, s\<lparr>getGlobalPluginBaseToFactoryMapMap := factoryMapMap2\<rparr>))"

text \<open>
  A write through the \<^verbatim>\<open>FactoryMap &\<close> that getFactoryMapForBaseClass returned: the map of
  the base class in the global map is replaced.
\<close>

definition store_FactoryMap :: "string \<Rightarrow> FactoryMap \<Rightarrow> process \<Rightarrow> process" where
  "store_FactoryMap typeid_base_class_name factoryMap s =
     s\<lparr>getGlobalPluginBaseToFactoryMapMap :=
         map_assign typeid_base_class_name factoryMap (getGlobalPluginBaseToFactoryMapMap s)\<rparr>"

definition getCurrentlyLoadingLibraryName :: "process \<Rightarrow> string" where
  "getCurrentlyLoadingLibraryName s = getCurrentlyLoadingLibraryNameReference s"

definition setCurrentlyLoadingLibraryName :: "string \<Rightarrow> process \<Rightarrow> process" where
  "setCurrentlyLoadingLibraryName library_name s =
     s\<lparr>getCurrentlyLoadingLibraryNameReference := library_name\<rparr>"

definition getCurrentlyActiveClassLoader :: "process \<Rightarrow> loader_ptr" where
  "getCurrentlyActiveClassLoader s = getCurrentlyActiveClassLoaderReference s"

definition setCurrentlyActiveClassLoader :: "loader_ptr \<Rightarrow> process \<Rightarrow> process" where
  "setCurrentlyActiveClassLoader loader s = s\<lparr>getCurrentlyActiveClassLoaderReference := loader\<rparr>"

definition hasANonPurePluginLibraryBeenOpened :: "process \<Rightarrow> bool" where
  "hasANonPurePluginLibraryBeenOpened s = hasANonPurePluginLibraryBeenOpenedReference s"

definition hasANonPurePluginLibraryBeenOpened_set :: "bool \<Rightarrow> process \<Rightarrow> process" where
  "hasANonPurePluginLibraryBeenOpened_set hasIt s =
     s\<lparr>hasANonPurePluginLibraryBeenOpenedReference := hasIt\<rparr>"

subsection \<open>MetaObject search, insert, removal, query\<close>

definition allMetaObjects_in :: "FactoryMap \<Rightarrow> MetaObjectVector" where
  "allMetaObjects_in factories = map snd factories"

definition allMetaObjects :: "process \<Rightarrow> MetaObjectVector" where
  "allMetaObjects s =
     concat (map (\<lambda>it. allMetaObjects_in (snd it)) (getGlobalPluginBaseToFactoryMapMap s))"

definition filterAllMetaObjectsOwnedBy :: "MetaObjectVector \<Rightarrow> loader_ptr \<Rightarrow> process \<Rightarrow> MetaObjectVector" where
  "filterAllMetaObjectsOwnedBy to_filter owner s =
     filter (\<lambda>f. isOwnedBy owner (meta_objects s f)) to_filter"

definition filterAllMetaObjectsAssociatedWithLibrary ::
  "MetaObjectVector \<Rightarrow> LibraryPath \<Rightarrow> process \<Rightarrow> MetaObjectVector" where
  "filterAllMetaObjectsAssociatedWithLibrary to_filter library_path s =
     filter (\<lambda>f. associated_library_path' (meta_objects s f) = library_path) to_filter"

definition allMetaObjectsForClassLoader :: "loader_ptr \<Rightarrow> process \<Rightarrow> MetaObjectVector" where
  "allMetaObjectsForClassLoader owner s = filterAllMetaObjectsOwnedBy (allMetaObjects s) owner s"

definition allMetaObjectsForLibrary :: "LibraryPath \<Rightarrow> process \<Rightarrow> MetaObjectVector" where
  "allMetaObjectsForLibrary library_path s =
     filterAllMetaObjectsAssociatedWithLibrary (allMetaObjects s) library_path s"

definition allMetaObjectsForLibraryOwnedBy :: "LibraryPath \<Rightarrow> loader_ptr \<Rightarrow> process \<Rightarrow> MetaObjectVector" where
  "allMetaObjectsForLibraryOwnedBy library_path owner s =
     filterAllMetaObjectsOwnedBy (allMetaObjectsForLibrary library_path s) owner s"

definition insertMetaObjectIntoGraveyard :: "meta_ptr \<Rightarrow> process \<Rightarrow> process" where
  "insertMetaObjectIntoGraveyard meta_obj s =
     (let s1 = CONSOLE_BRIDGE_logDebug Inserting_MetaObject_into_graveyard s
      in s1\<lparr>getMetaObjectGraveyard := getMetaObjectGraveyard s1 @ [meta_obj]\<rparr>)"

text \<open>
  destroyMetaObjectsForLibrary(library\_path, factories, loader): the walk over one
  FactoryMap, which returns the entries it did not erase.
\<close>

fun destroyMetaObjectsForLibrary_in ::
  "LibraryPath \<Rightarrow> FactoryMap \<Rightarrow> loader_ptr \<Rightarrow> process \<Rightarrow> FactoryMap \<times> process" where
  "destroyMetaObjectsForLibrary_in library_path [] loader s = ([], s)"
| "destroyMetaObjectsForLibrary_in library_path ((name, meta_obj) # factories) loader s =
     (if associated_library_path' (meta_objects s meta_obj) = library_path
         \<and> isOwnedBy loader (meta_objects s meta_obj)
      then
        (let s1 = meta_object_call meta_obj (removeOwningClassLoader loader) s
         in if \<not> isOwnedByAnybody (meta_objects s1 meta_obj)
            then destroyMetaObjectsForLibrary_in library_path factories loader
                   (insertMetaObjectIntoGraveyard meta_obj s1)
            else (let (kept, s2) = destroyMetaObjectsForLibrary_in library_path factories loader s1
                  in ((name, meta_obj) # kept, s2)))
      else (let (kept, s2) = destroyMetaObjectsForLibrary_in library_path factories loader s
            in ((name, meta_obj) # kept, s2)))"

fun destroyMetaObjectsForLibrary_maps ::
  "LibraryPath \<Rightarrow> BaseToFactoryMapMap \<Rightarrow> loader_ptr \<Rightarrow> process \<Rightarrow> BaseToFactoryMapMap \<times> process" where
  "destroyMetaObjectsForLibrary_maps library_path [] loader s = ([], s)"
| "destroyMetaObjectsForLibrary_maps library_path ((base, factories) # factory_map_map) loader s =
     (let (factories1, s1) = destroyMetaObjectsForLibrary_in library_path factories loader s;
          (rest, s2) = destroyMetaObjectsForLibrary_maps library_path factory_map_map loader s1
      in ((base, factories1) # rest, s2))"

definition destroyMetaObjectsForLibrary :: "LibraryPath \<Rightarrow> loader_ptr \<Rightarrow> process \<Rightarrow> process" where
  "destroyMetaObjectsForLibrary library_path loader s =
     (let s1 = CONSOLE_BRIDGE_logDebug
                 Removing_MetaObjects s;
          (factory_map_map, s2) =
             destroyMetaObjectsForLibrary_maps library_path
               (getGlobalPluginBaseToFactoryMapMap s1) loader s1
      in CONSOLE_BRIDGE_logDebug Metaobjects_removed
           (s2\<lparr>getGlobalPluginBaseToFactoryMapMap := factory_map_map\<rparr>))"

definition areThereAnyExistingMetaObjectsForLibrary :: "LibraryPath \<Rightarrow> process \<Rightarrow> bool" where
  "areThereAnyExistingMetaObjectsForLibrary library_path s =
     (length (allMetaObjectsForLibrary library_path s) > 0)"

text \<open>An iterator into the loaded library vector is an index; \<open>None\<close> is \<^verbatim>\<open>end()\<close>.\<close>

primrec first_index :: "('a \<Rightarrow> bool) \<Rightarrow> 'a list \<Rightarrow> nat option" where
  "first_index P [] = None"
| "first_index P (x # xs) = (if P x then Some 0 else map_option Suc (first_index P xs))"

definition findLoadedLibrary :: "LibraryPath \<Rightarrow> process \<Rightarrow> nat option" where
  "findLoadedLibrary library_path s =
     first_index (\<lambda>it. fst it = library_path) (getLoadedLibraryVector s)"

definition isLibraryLoadedByAnybody :: "LibraryPath \<Rightarrow> process \<Rightarrow> bool" where
  "isLibraryLoadedByAnybody library_path s =
     (case findLoadedLibrary library_path s of
        Some itr \<Rightarrow> True
      | None \<Rightarrow> False)"

definition isLibraryLoaded :: "LibraryPath \<Rightarrow> loader_ptr \<Rightarrow> process \<Rightarrow> bool" where
  "isLibraryLoaded library_path loader s =
     (let is_lib_loaded_by_anyone = isLibraryLoadedByAnybody library_path s;
          num_meta_objs_for_lib = length (allMetaObjectsForLibrary library_path s);
          num_meta_objs_for_lib_bound_to_loader =
            length (allMetaObjectsForLibraryOwnedBy library_path loader s);
          are_meta_objs_bound_to_loader =
            (if 0 = num_meta_objs_for_lib then True
             else num_meta_objs_for_lib_bound_to_loader \<le> num_meta_objs_for_lib)
      in is_lib_loaded_by_anyone \<and> are_meta_objs_bound_to_loader)"

definition getAllLibrariesUsedByClassLoader :: "loader_ptr \<Rightarrow> process \<Rightarrow> string list" where
  "getAllLibrariesUsedByClassLoader loader s =
     foldl (\<lambda>all_libs meta_obj.
              (let lib_path = associated_library_path' (meta_objects s meta_obj)
               in if lib_path \<notin> set all_libs then all_libs @ [lib_path] else all_libs))
       [] (allMetaObjectsForClassLoader loader s)"

definition addClassLoaderOwnerForAllExistingMetaObjectsForLibrary ::
  "LibraryPath \<Rightarrow> loader_ptr \<Rightarrow> process \<Rightarrow> process" where
  "addClassLoaderOwnerForAllExistingMetaObjectsForLibrary library_path loader s =
     foldl (\<lambda>s1 meta_obj.
              meta_object_call meta_obj (addOwningClassLoader loader)
                (CONSOLE_BRIDGE_logDebug Tagging_existing_MetaObject s1))
       s (allMetaObjectsForLibrary library_path s)"

definition revivePreviouslyCreateMetaobjectsFromGraveyard ::
  "LibraryPath \<Rightarrow> loader_ptr \<Rightarrow> process \<Rightarrow> process" where
  "revivePreviouslyCreateMetaobjectsFromGraveyard library_path loader s =
     foldl (\<lambda>s1 obj.
              if associated_library_path' (meta_objects s1 obj) = library_path
              then
                (let s2 = CONSOLE_BRIDGE_logDebug
                            Resurrected_metaobject_from_graveyard s1;
                     s3 = meta_object_call obj (addOwningClassLoader loader) s2;
                     (factory, s4) =
                        getFactoryMapForBaseClass (typeid_base_class_name' (meta_objects s3 obj)) s3
                 in store_FactoryMap (typeid_base_class_name' (meta_objects s4 obj))
                      (map_assign (class_name' (meta_objects s4 obj)) obj factory) s4)
              else s1)
       s (getMetaObjectGraveyard s)"

fun purgeGraveyardOfMetaobjects_in ::
  "LibraryPath \<Rightarrow> MetaObjectVector \<Rightarrow> process \<Rightarrow> MetaObjectVector \<times> process" where
  "purgeGraveyardOfMetaobjects_in library_path [] s = ([], s)"
| "purgeGraveyardOfMetaobjects_in library_path (obj # graveyard) s =
     (if associated_library_path' (meta_objects s obj) = library_path
      then purgeGraveyardOfMetaobjects_in library_path graveyard
             (CONSOLE_BRIDGE_logDebug Purging_metaobject_from_graveyard s)
      else (let (kept, s1) = purgeGraveyardOfMetaobjects_in library_path graveyard s
            in (obj # kept, s1)))"

definition purgeGraveyardOfMetaobjects :: "LibraryPath \<Rightarrow> loader_ptr \<Rightarrow> process \<Rightarrow> process" where
  "purgeGraveyardOfMetaobjects library_path loader s =
     (let all_meta_objs = allMetaObjects s;
          (graveyard, s1) = purgeGraveyardOfMetaobjects_in library_path (getMetaObjectGraveyard s) s
      in s1\<lparr>getMetaObjectGraveyard := graveyard\<rparr>)"

subsection \<open>Registration (class\_loader\_core.hpp, register\_macro.hpp)\<close>

text \<open>
  registerPlugin<Derived, Base>(class\_name, base\_class\_name). The template argument Base
  enters as \<open>typeid_Base\<close>, the string \<^verbatim>\<open>typeid(Base).name()\<close>. The result is the address the
  returned UniquePtr holds.
\<close>

definition registerPlugin :: "string \<Rightarrow> string \<Rightarrow> string \<Rightarrow> process \<Rightarrow> meta_ptr \<times> process" where
  "registerPlugin typeid_Base class_name base_class_name s =
     (let s1 = CONSOLE_BRIDGE_logDebug Registering_plugin_factory s;
          s2 = (if None = getCurrentlyActiveClassLoader s1
                then hasANonPurePluginLibraryBeenOpened_set True
                       (CONSOLE_BRIDGE_logDebug
                          ALERT_non_pure_plugin_library s1)
                else s1);
          (new_factory, s3) = new_MetaObject class_name base_class_name typeid_Base s2;
          s4 = meta_object_call new_factory
                 (addOwningClassLoader (getCurrentlyActiveClassLoader s3)) s3;
          s5 = meta_object_call new_factory
                 (setAssociatedLibraryPath (getCurrentlyLoadingLibraryName s4)) s4;
          (factoryMap, s6) = getFactoryMapForBaseClass typeid_Base s5;
          s7 = (if map_find class_name factoryMap \<noteq> None
                then CONSOLE_BRIDGE_logWarn
                       SEVERE_WARNING_namespace_collision s6
                else s6);
          s8 = store_FactoryMap typeid_Base (map_assign class_name new_factory factoryMap) s7
      in (new_factory,
          CONSOLE_BRIDGE_logDebug Registration_complete s8))"

text \<open>
  The deleter of the UniquePtr that registerPlugin returns: the first occurrence of the
  pointer leaves the graveyard, the first entry that holds it leaves the first FactoryMap
  that has one, and the meta object is deleted; its destructor logs at level Debug.
\<close>

fun erase_first_value :: "meta_ptr \<Rightarrow> FactoryMap \<Rightarrow> FactoryMap" where
  "erase_first_value p [] = []"
| "erase_first_value p ((name, q) # factory_map) =
     (if q = p then factory_map else (name, q) # erase_first_value p factory_map)"

fun erase_from_first_FactoryMap :: "meta_ptr \<Rightarrow> BaseToFactoryMapMap \<Rightarrow> BaseToFactoryMapMap" where
  "erase_from_first_FactoryMap p [] = []"
| "erase_from_first_FactoryMap p ((base, factory_map) # factory_map_map) =
     (if p \<in> set (map snd factory_map)
      then (base, erase_first_value p factory_map) # factory_map_map
      else (base, factory_map) # erase_from_first_FactoryMap p factory_map_map)"

definition MetaObject_deleter :: "meta_ptr \<Rightarrow> process \<Rightarrow> process" where
  "MetaObject_deleter p s =
     (let s1 = s\<lparr>getMetaObjectGraveyard := remove1 p (getMetaObjectGraveyard s),
                 getGlobalPluginBaseToFactoryMapMap :=
                   erase_from_first_FactoryMap p (getGlobalPluginBaseToFactoryMapMap s)\<rparr>;
          s2 = CONSOLE_BRIDGE_logDebug Destroying_MetaObject s1
      in s2\<lparr>meta_objects_deleted := meta_objects_deleted s2 @ [p]\<rparr>)"

text \<open>
  One use of CLASS\_LOADER\_REGISTER\_CLASS\_WITH\_MESSAGE(Derived, Base, Message) in a
  plugin library: the static \<^verbatim>\<open>g_register_plugin_\<close> object, whose constructor logs the
  message (when it is not empty) and registers the factory.
\<close>

datatype ProxyExec =
  ProxyExec (Derived: string) (Base: string) (typeid_of_Base: string) (Message: string)

definition ProxyExec_constructor :: "ProxyExec \<Rightarrow> process \<Rightarrow> meta_ptr \<times> process" where
  "ProxyExec_constructor x s =
     registerPlugin (typeid_of_Base x) (Derived x) (Base x)
       (if Message x \<noteq> [] then CONSOLE_BRIDGE_logInform (Banner (Message x)) s else s)"

fun static_initializers :: "ProxyExec list \<Rightarrow> process \<Rightarrow> meta_ptr list \<times> process" where
  "static_initializers [] s = ([], s)"
| "static_initializers (x # xs) s =
     (let (holder, s1) = ProxyExec_constructor x s;
          (holders, s2) = static_initializers xs s1
      in (holder # holders, s2))"

definition static_destructors :: "meta_ptr list \<Rightarrow> process \<Rightarrow> process" where
  "static_destructors holders s = foldl (\<lambda>s1 p. MetaObject_deleter p s1) s holders"

subsection \<open>The platform's dynamic loader\<close>

text \<open>
  rcpputils::SharedLibrary is not part of the repository. What its constructor and its
  unload\_library() do for a path is a parameter of the model: the constructor throws
  std::runtime\_error or std::bad\_alloc, or opens the library and runs the static
  initializers of the registration macros in it; unload\_library() throws
  std::runtime\_error, or closes the library and runs the destructors of the static
  holders it names.
\<close>

datatype SharedLibrary_load = load_runtime_error | load_bad_alloc | load_runs "ProxyExec list"

datatype SharedLibrary_unload = unload_runtime_error | unload_runs "meta_ptr list"

record platform =
  SharedLibrary_constructor :: "LibraryPath \<Rightarrow> SharedLibrary_load"
  SharedLibrary_unload_library :: "LibraryPath \<Rightarrow> SharedLibrary_unload"

subsection \<open>Instances and available classes (class\_loader\_core.hpp)\<close>

text \<open>The object \<^verbatim>\<open>new C\<close> that the factory of class C creates.\<close>

datatype plugin = Plugin ClassName

definition MetaObject_create :: "AbstractMetaObjectBaseImpl \<Rightarrow> plugin" where
  "MetaObject_create factory = Plugin (class_name' factory)"

text \<open>
  createInstance<Base>(derived\_class\_name, loader). The dynamic\_cast to
  AbstractMetaObject<Base> yields the pointer when the meta object was made for this
  Base, and null otherwise.
\<close>

definition createInstance ::
  "string \<Rightarrow> string \<Rightarrow> loader_ptr \<Rightarrow> process \<Rightarrow> (exception + plugin) \<times> process" where
  "createInstance typeid_Base derived_class_name loader s =
     (let (factoryMap, s1) = getFactoryMapForBaseClass typeid_Base s;
          (factory, s2) =
            (case map_find derived_class_name factoryMap of
               Some p \<Rightarrow>
                 (if typeid_base_class_name' (meta_objects s1 p) = typeid_Base
                  then Some p else None, s1)
             | None \<Rightarrow>
                 (None, CONSOLE_BRIDGE_logError
                          No_metaobject_exists s1))
      in case factory of
           Some p \<Rightarrow>
             if isOwnedBy loader (meta_objects s2 p)
             then (Inr (MetaObject_create (meta_objects s2 p)),
                   CONSOLE_BRIDGE_logDebug Created_instance s2)
             else if isOwnedBy None (meta_objects s2 p)
             then (Inr (MetaObject_create (meta_objects s2 p)),
                   CONSOLE_BRIDGE_logDebug Created_instance
                     (CONSOLE_BRIDGE_logDebug
                        ALERT_metaobject_has_no_owner s2))
             else (Inl CreateClassException, s2)
         | None \<Rightarrow> (Inl CreateClassException, s2))"

definition getAvailableClasses :: "string \<Rightarrow> loader_ptr \<Rightarrow> process \<Rightarrow> string list \<times> process" where
  "getAvailableClasses typeid_Base loader s =
     (let (factory_map, s1) = getFactoryMapForBaseClass typeid_Base s;
          classes =
            map fst (filter (\<lambda>it. isOwnedBy loader (meta_objects s1 (snd it))) factory_map);
          classes_with_no_owner =
            map fst (filter (\<lambda>it. \<not> isOwnedBy loader (meta_objects s1 (snd it))
                                  \<and> isOwnedBy None (meta_objects s1 (snd it))) factory_map)
      in (classes @ classes_with_no_owner, s1))"

subsection \<open>Loading and unloading a library (class\_loader\_core.cpp)\<close>

definition loadLibrary ::
  "platform \<Rightarrow> LibraryPath \<Rightarrow> loader_ptr \<Rightarrow> process \<Rightarrow> (exception + unit) \<times> process" where
  "loadLibrary os library_path loader s =
     (let s1 = CONSOLE_BRIDGE_logDebug Attempting_to_load_library s
      in if isLibraryLoadedByAnybody library_path s1
         then (Inr (),
               addClassLoaderOwnerForAllExistingMetaObjectsForLibrary library_path loader
                 (CONSOLE_BRIDGE_logDebug
                    Library_already_in_memory s1))
         else
           (let s2 = setCurrentlyActiveClassLoader loader s1;
                s3 = setCurrentlyLoadingLibraryName library_path s2
            in case SharedLibrary_constructor os library_path of
                 load_runtime_error \<Rightarrow>
                   (Inl LibraryLoadException,
                    setCurrentlyActiveClassLoader None (setCurrentlyLoadingLibraryName [] s3))
               | load_bad_alloc \<Rightarrow>
                   (Inl LibraryLoadException,
                    setCurrentlyActiveClassLoader None (setCurrentlyLoadingLibraryName [] s3))
               | load_runs registrations \<Rightarrow>
                   (let (holders, s4) = static_initializers registrations s3;
                        library_handle = SharedLibrary library_path;
                        s5 = setCurrentlyActiveClassLoader None (setCurrentlyLoadingLibraryName [] s4);
                        s6 = CONSOLE_BRIDGE_logDebug
                               Successfully_loaded_library s5;
                        num_lib_objs = length (allMetaObjectsForLibrary library_path s6);
                        s7 = (if 0 = num_lib_objs
                              then revivePreviouslyCreateMetaobjectsFromGraveyard library_path loader
                                     (CONSOLE_BRIDGE_logDebug
                                        No_metaobjects_registered_checking_graveyard s6)
                              else CONSOLE_BRIDGE_logDebug
                                     Library_generated_new_metaobjects s6);
                        s8 = purgeGraveyardOfMetaobjects library_path loader s7
                    in (Inr (),
                        s8\<lparr>getLoadedLibraryVector :=
                             getLoadedLibraryVector s8 @ [(library_path, library_handle)]\<rparr>))))"

definition unloadLibrary ::
  "platform \<Rightarrow> LibraryPath \<Rightarrow> loader_ptr \<Rightarrow> process \<Rightarrow> (exception + unit) \<times> process" where
  "unloadLibrary os library_path loader s =
     (if hasANonPurePluginLibraryBeenOpened s
      then (Inr (),
            CONSOLE_BRIDGE_logDebug
              Cannot_unload_any_library s)
      else
        (let s1 = CONSOLE_BRIDGE_logDebug Unloading_library s
         in case findLoadedLibrary library_path s1 of
              Some itr \<Rightarrow>
                (let library_path1 = fst (getLoadedLibraryVector s1 ! itr);
                     s2 = destroyMetaObjectsForLibrary library_path1 loader s1
                 in if \<not> areThereAnyExistingMetaObjectsForLibrary library_path1 s2
                    then
                      (let s3 = CONSOLE_BRIDGE_logDebug
                                  No_more_MetaObjects_unloading_library s2
                       in case SharedLibrary_unload_library os library_path1 of
                            unload_runtime_error \<Rightarrow> (Inl LibraryUnloadException, s3)
                          | unload_runs holders \<Rightarrow>
                              (let s4 = static_destructors holders s3
                               in (Inr (),
                                   s4\<lparr>getLoadedLibraryVector :=
                                        take itr (getLoadedLibraryVector s4)
                                        @ drop (Suc itr) (getLoadedLibraryVector s4)\<rparr>)))
                    else (Inr (),
                          CONSOLE_BRIDGE_logDebug
                            MetaObjects_still_remain s2))
            | None \<Rightarrow>
                (Inr (),
                 CONSOLE_BRIDGE_logDebug
                   Attempt_to_unload_unknown_library s1)))"

section \<open>class\_loader: the class ClassLoader\<close>

text \<open>
  A ClassLoader object lives at an address of the heap \<open>class_loaders\<close>; a member function
  takes the address as \<^verbatim>\<open>this\<close>. The counters are C++ \<^verbatim>\<open>int\<close>s of 32 bits: a counter holds
  an integer from \<open>- 2 ^ 31\<close> up to \<open>2 ^ 31 - 1\<close>, and \<open>int_wrap\<close> is what an increment or a
  decrement that leaves this range stores on a two's complement machine.
\<close>

definition int_wrap :: "int \<Rightarrow> int" where
  "int_wrap x = (x + 2147483648) mod 4294967296 - 2147483648"

definition ClassLoader_call :: "nat \<Rightarrow> (ClassLoader \<Rightarrow> ClassLoader) \<Rightarrow> process \<Rightarrow> process" where
  "ClassLoader_call this f s = s\<lparr>class_loaders := (class_loaders s)(this := f (class_loaders s this))\<rparr>"

definition hasUnmanagedInstanceBeenCreated :: "process \<Rightarrow> bool" where
  "hasUnmanagedInstanceBeenCreated s = has_unmananged_instance_been_created' s"

definition setUnmanagedInstanceBeenCreated :: "bool \<Rightarrow> process \<Rightarrow> process" where
  "setUnmanagedInstanceBeenCreated state s = s\<lparr>has_unmananged_instance_been_created' := state\<rparr>"

definition getLibraryPath :: "nat \<Rightarrow> process \<Rightarrow> string" where
  "getLibraryPath this s = library_path' (class_loaders s this)"

definition ClassLoader_isLibraryLoaded :: "nat \<Rightarrow> process \<Rightarrow> bool" where
  "ClassLoader_isLibraryLoaded this s = isLibraryLoaded (getLibraryPath this s) (Some this) s"

definition isLibraryLoadedByAnyClassloader :: "nat \<Rightarrow> process \<Rightarrow> bool" where
  "isLibraryLoadedByAnyClassloader this s = isLibraryLoadedByAnybody (getLibraryPath this s) s"

definition isOnDemandLoadUnloadEnabled :: "nat \<Rightarrow> process \<Rightarrow> bool" where
  "isOnDemandLoadUnloadEnabled this s = ondemand_load_unload' (class_loaders s this)"

definition ClassLoader_loadLibrary :: "platform \<Rightarrow> nat \<Rightarrow> process \<Rightarrow> (exception + unit) \<times> process" where
  "ClassLoader_loadLibrary os this s =
     (if getLibraryPath this s = []
      then (Inr (), s)
      else
        (let s1 = ClassLoader_call this (\<lambda>c. c\<lparr>load_ref_count' := int_wrap (load_ref_count' c + 1)\<rparr>) s
         in loadLibrary os (getLibraryPath this s1) (Some this) s1))"

text \<open>
  unloadLibraryInternal(lock\_plugin\_ref\_count). The flag only chooses whether the plugin
  reference count mutex is taken; the handler of the source releases it and rethrows.
\<close>

definition unloadLibraryInternal ::
  "platform \<Rightarrow> nat \<Rightarrow> bool \<Rightarrow> process \<Rightarrow> (exception + int) \<times> process" where
  "unloadLibraryInternal os this lock_plugin_ref_count s =
     (if plugin_ref_count' (class_loaders s this) > 0
      then
        (let s1 = CONSOLE_BRIDGE_logWarn
                    SEVERE_WARNING_objects_exist s
         in (Inr (load_ref_count' (class_loaders s1 this)), s1))
      else
        (let s1 = ClassLoader_call this
                    (\<lambda>c. c\<lparr>load_ref_count' := int_wrap (load_ref_count' c - 1)\<rparr>) s
         in if load_ref_count' (class_loaders s1 this) = 0
            then
              (case unloadLibrary os (getLibraryPath this s1) (Some this) s1 of
                 (Inl e, s2) \<Rightarrow> (Inl e, s2)
               | (Inr u, s2) \<Rightarrow> (Inr (load_ref_count' (class_loaders s2 this)), s2))
            else if load_ref_count' (class_loaders s1 this) < 0
            then
              (let s2 = ClassLoader_call this (\<lambda>c. c\<lparr>load_ref_count' := 0\<rparr>) s1
               in (Inr (load_ref_count' (class_loaders s2 this)), s2))
            else (Inr (load_ref_count' (class_loaders s1 this)), s1)))"

definition ClassLoader_unloadLibrary :: "platform \<Rightarrow> nat \<Rightarrow> process \<Rightarrow> (exception + int) \<times> process" where
  "ClassLoader_unloadLibrary os this s =
     (if getLibraryPath this s = []
      then (Inr 0, s)
      else unloadLibraryInternal os this True s)"

text \<open>
  The constructor ClassLoader(library\_path, ondemand\_load\_unload), run at a fresh address.
  When loadLibrary throws, the constructor throws and no object exists.
\<close>

definition new_ClassLoader ::
  "platform \<Rightarrow> string \<Rightarrow> bool \<Rightarrow> process \<Rightarrow> (exception + nat) \<times> process" where
  "new_ClassLoader os library_path ondemand_load_unload s =
     (let this = class_loaders_lim s;
          s1 = s\<lparr>class_loaders := (class_loaders s)
                    (this := \<lparr> ondemand_load_unload' = ondemand_load_unload,
                               library_path' = library_path,
                               load_ref_count' = 0,
                               plugin_ref_count' = 0 \<rparr>),
                  class_loaders_lim := Suc this\<rparr>;
          s2 = CONSOLE_BRIDGE_logDebug
                 Constructing_new_ClassLoader s1
      in if \<not> isOnDemandLoadUnloadEnabled this s2
         then (case ClassLoader_loadLibrary os this s2 of
                 (Inl e, s3) \<Rightarrow> (Inl e, s3)
               | (Inr u, s3) \<Rightarrow> (Inr this, s3))
         else (Inr this, s2))"

definition ClassLoader_destructor :: "platform \<Rightarrow> nat \<Rightarrow> process \<Rightarrow> (exception + int) \<times> process" where
  "ClassLoader_destructor os this s =
     ClassLoader_unloadLibrary os this
       (CONSOLE_BRIDGE_logDebug
          Destroying_class_loader s)"

definition ClassLoader_getAvailableClasses :: "string \<Rightarrow> nat \<Rightarrow> process \<Rightarrow> string list \<times> process" where
  "ClassLoader_getAvailableClasses typeid_Base this s = getAvailableClasses typeid_Base (Some this) s"

definition isClassAvailable :: "string \<Rightarrow> string \<Rightarrow> nat \<Rightarrow> process \<Rightarrow> bool \<times> process" where
  "isClassAvailable typeid_Base class_name this s =
     (let (available_classes, s1) = ClassLoader_getAvailableClasses typeid_Base this s
      in (class_name \<in> set available_classes, s1))"

definition createRawInstance ::
  "platform \<Rightarrow> string \<Rightarrow> string \<Rightarrow> bool \<Rightarrow> nat \<Rightarrow> process \<Rightarrow> (exception + plugin) \<times> process" where
  "createRawInstance os typeid_Base derived_class_name managed this s =
     (let s1 = (if \<not> managed then setUnmanagedInstanceBeenCreated True s else s);
          s2 = (if managed \<and> hasUnmanagedInstanceBeenCreated s1 \<and> isOnDemandLoadUnloadEnabled this s1
                then CONSOLE_BRIDGE_logInform
                       Managed_instance_after_unmanaged s1
                else s1)
      in case (if \<not> ClassLoader_isLibraryLoaded this s2
               then ClassLoader_loadLibrary os this s2
               else (Inr (), s2)) of
           (Inl e, s3) \<Rightarrow> (Inl e, s3)
         | (Inr u, s3) \<Rightarrow>
             (case createInstance typeid_Base derived_class_name (Some this) s3 of
                (Inl e, s4) \<Rightarrow> (Inl e, s4)
              | (Inr obj, s4) \<Rightarrow>
                  (Inr obj,
                   if managed
                   then ClassLoader_call this
                          (\<lambda>c. c\<lparr>plugin_ref_count' := int_wrap (plugin_ref_count' c + 1)\<rparr>) s4
                   else s4)))"

text \<open>
  createInstance and createUniqueInstance wrap the raw pointer in a smart pointer whose
  deleter is onPluginDeletion of this loader; createUnmanagedInstance returns it bare.
\<close>

definition ClassLoader_createInstance ::
  "platform \<Rightarrow> string \<Rightarrow> string \<Rightarrow> nat \<Rightarrow> process \<Rightarrow> (exception + plugin) \<times> process" where
  "ClassLoader_createInstance os typeid_Base derived_class_name this s =
     createRawInstance os typeid_Base derived_class_name True this s"

definition ClassLoader_createUniqueInstance ::
  "platform \<Rightarrow> string \<Rightarrow> string \<Rightarrow> nat \<Rightarrow> process \<Rightarrow> (exception + plugin) \<times> process" where
  "ClassLoader_createUniqueInstance os typeid_Base derived_class_name this s =
     createRawInstance os typeid_Base derived_class_name True this s"

definition ClassLoader_createUnmanagedInstance ::
  "platform \<Rightarrow> string \<Rightarrow> string \<Rightarrow> nat \<Rightarrow> process \<Rightarrow> (exception + plugin) \<times> process" where
  "ClassLoader_createUnmanagedInstance os typeid_Base derived_class_name this s =
     createRawInstance os typeid_Base derived_class_name False this s"

definition onPluginDeletion ::
  "platform \<Rightarrow> plugin option \<Rightarrow> nat \<Rightarrow> process \<Rightarrow> (exception + unit) \<times> process" where
  "onPluginDeletion os obj this s =
     (let s1 = CONSOLE_BRIDGE_logDebug Calling_onPluginDeletion s
      in case obj of
           None \<Rightarrow> (Inr (), s1)
         | Some deleted \<Rightarrow>
             (let s2 = ClassLoader_call this
                         (\<lambda>c. c\<lparr>plugin_ref_count' := int_wrap (plugin_ref_count' c - 1)\<rparr>) s1
              in if plugin_ref_count' (class_loaders s2 this) = 0 \<and> isOnDemandLoadUnloadEnabled this s2
                 then
                   (if \<not> hasUnmanagedInstanceBeenCreated s2
                    then (case unloadLibraryInternal os this False s2 of
                            (Inl e, s3) \<Rightarrow> (Inl e, s3)
                          | (Inr n, s3) \<Rightarrow> (Inr (), s3))
                    else (Inr (),
                          CONSOLE_BRIDGE_logWarn
                            Cannot_unload_unmanaged_instance_created s2))
                 else (Inr (), s2)))"

section \<open>multi\_library\_class\_loader: the class MultiLibraryClassLoader\<close>

record MultiLibraryClassLoaderImpl =
  enable_ondemand_loadunload' :: bool
  active_class_loaders' :: "(LibraryPath, loader_ptr) std_map"

definition MultiLibraryClassLoader :: "bool \<Rightarrow> MultiLibraryClassLoaderImpl" where
  "MultiLibraryClassLoader enable_ondemand_loadunload =
     \<lparr> enable_ondemand_loadunload' = enable_ondemand_loadunload, active_class_loaders' = [] \<rparr>"

definition getRegisteredLibraries :: "MultiLibraryClassLoaderImpl \<Rightarrow> string list" where
  "getRegisteredLibraries impl =
     map fst (filter (\<lambda>it. snd it \<noteq> None) (active_class_loaders' impl))"

definition getClassLoaderForLibrary ::
  "LibraryPath \<Rightarrow> MultiLibraryClassLoaderImpl \<Rightarrow> loader_ptr \<times> MultiLibraryClassLoaderImpl" where
  "getClassLoaderForLibrary library_path impl =
     (let (loader, active) = map_index library_path None (active_class_loaders' impl)
      in (loader, impl\<lparr>active_class_loaders' := active\<rparr>))"

definition getAllAvailableClassLoaders :: "MultiLibraryClassLoaderImpl \<Rightarrow> loader_ptr list" where
  "getAllAvailableClassLoaders impl = map snd (active_class_loaders' impl)"

definition isLibraryAvailable :: "string \<Rightarrow> MultiLibraryClassLoaderImpl \<Rightarrow> bool" where
  "isLibraryAvailable library_name impl = (library_name \<in> set (getRegisteredLibraries impl))"

definition MultiLibraryClassLoader_isOnDemandLoadUnloadEnabled :: "MultiLibraryClassLoaderImpl \<Rightarrow> bool" where
  "MultiLibraryClassLoader_isOnDemandLoadUnloadEnabled impl = enable_ondemand_loadunload' impl"

definition MultiLibraryClassLoader_loadLibrary ::
  "platform \<Rightarrow> LibraryPath \<Rightarrow> MultiLibraryClassLoaderImpl \<Rightarrow> process
     \<Rightarrow> (exception + unit) \<times> MultiLibraryClassLoaderImpl \<times> process" where
  "MultiLibraryClassLoader_loadLibrary os library_path impl s =
     (if \<not> isLibraryAvailable library_path impl
      then
        (case new_ClassLoader os library_path
                (MultiLibraryClassLoader_isOnDemandLoadUnloadEnabled impl) s of
           (Inl e, s1) \<Rightarrow> (Inl e, impl, s1)
         | (Inr loader, s1) \<Rightarrow>
             (Inr (),
              impl\<lparr>active_class_loaders' :=
                     map_assign library_path (Some loader) (active_class_loaders' impl)\<rparr>,
              s1\<lparr>class_loader_ptrs' := class_loader_ptrs' s1 @ [loader]\<rparr>))
      else (Inr (), impl, s))"

text \<open>
  getClassLoaderForClass<Base>(class\_name): the walk over the vector that
  getAllAvailableClassLoaders returned. A null entry of the vector is called through.
\<close>

fun getClassLoaderForClass_loop ::
  "platform \<Rightarrow> string \<Rightarrow> string \<Rightarrow> loader_ptr list \<Rightarrow> process \<Rightarrow> (exception + loader_ptr) \<times> process" where
  "getClassLoaderForClass_loop os typeid_Base class_name [] s = (Inr None, s)"
| "getClassLoaderForClass_loop os typeid_Base class_name (None # loaders) s =
     (Inl NullPointerDereference, s)"
| "getClassLoaderForClass_loop os typeid_Base class_name (Some i # loaders) s =
     (case (if \<not> ClassLoader_isLibraryLoaded i s
            then ClassLoader_loadLibrary os i s
            else (Inr (), s)) of
        (Inl e, s1) \<Rightarrow> (Inl e, s1)
      | (Inr u, s1) \<Rightarrow>
          (let (available, s2) = isClassAvailable typeid_Base class_name i s1
           in if available then (Inr (Some i), s2)
              else getClassLoaderForClass_loop os typeid_Base class_name loaders s2))"

definition getClassLoaderForClass ::
  "platform \<Rightarrow> string \<Rightarrow> string \<Rightarrow> MultiLibraryClassLoaderImpl \<Rightarrow> process
     \<Rightarrow> (exception + loader_ptr) \<times> process" where
  "getClassLoaderForClass os typeid_Base class_name impl s =
     getClassLoaderForClass_loop os typeid_Base class_name (getAllAvailableClassLoaders impl) s"

text \<open>The one-argument createInstance<Base>(class\_name).\<close>

definition MultiLibraryClassLoader_createInstance ::
  "platform \<Rightarrow> string \<Rightarrow> string \<Rightarrow> MultiLibraryClassLoaderImpl \<Rightarrow> process
     \<Rightarrow> (exception + plugin) \<times> process" where
  "MultiLibraryClassLoader_createInstance os typeid_Base class_name impl s =
     (let s1 = CONSOLE_BRIDGE_logDebug
                 MultiLibraryClassLoader_attempting_to_create_instance s
      in case getClassLoaderForClass os typeid_Base class_name impl s1 of
           (Inl e, s2) \<Rightarrow> (Inl e, s2)
         | (Inr None, s2) \<Rightarrow> (Inl CreateClassException, s2)
         | (Inr (Some loader), s2) \<Rightarrow>
             ClassLoader_createInstance os typeid_Base class_name loader s2)"

text \<open>The two-argument createInstance<Base>(class\_name, library\_path).\<close>

definition MultiLibraryClassLoader_createInstance_from ::
  "platform \<Rightarrow> string \<Rightarrow> string \<Rightarrow> LibraryPath \<Rightarrow> MultiLibraryClassLoaderImpl \<Rightarrow> process
     \<Rightarrow> (exception + plugin) \<times> MultiLibraryClassLoaderImpl \<times> process" where
  "MultiLibraryClassLoader_createInstance_from os typeid_Base class_name library_path impl s =
     (let (loader, impl1) = getClassLoaderForLibrary library_path impl
      in case loader of
           None \<Rightarrow> (Inl NoClassLoaderExistsException, impl1, s)
         | Some this \<Rightarrow>
             (let (r, s1) = ClassLoader_createInstance os typeid_Base class_name this s
              in (r, impl1, s1)))"

text \<open>getAvailableClasses<Base>() of the MultiLibraryClassLoader.\<close>

fun MultiLibraryClassLoader_getAvailableClasses_loop ::
  "string \<Rightarrow> loader_ptr list \<Rightarrow> process \<Rightarrow> (exception + string list) \<times> process" where
  "MultiLibraryClassLoader_getAvailableClasses_loop typeid_Base [] s = (Inr [], s)"
| "MultiLibraryClassLoader_getAvailableClasses_loop typeid_Base (None # loaders) s =
     (Inl NullPointerDereference, s)"
| "MultiLibraryClassLoader_getAvailableClasses_loop typeid_Base (Some loader # loaders) s =
     (let (loader_classes, s1) = ClassLoader_getAvailableClasses typeid_Base loader s
      in case MultiLibraryClassLoader_getAvailableClasses_loop typeid_Base loaders s1 of
           (Inl e, s2) \<Rightarrow> (Inl e, s2)
         | (Inr available_classes, s2) \<Rightarrow> (Inr (loader_classes @ available_classes), s2))"

definition MultiLibraryClassLoader_getAvailableClasses ::
  "string \<Rightarrow> MultiLibraryClassLoaderImpl \<Rightarrow> process \<Rightarrow> (exception + string list) \<times> process" where
  "MultiLibraryClassLoader_getAvailableClasses typeid_Base impl s =
     MultiLibraryClassLoader_getAvailableClasses_loop typeid_Base (getAllAvailableClassLoaders impl) s"

section \<open>A platform and processes for the concrete runs\<close>

text \<open>
  A platform with two plugin libraries: /p/libA registers class Foo and /p/libB registers
  class Bar, both for the base class Base (whose typeid name is 4Base); no other path can
  be opened. Closing a library succeeds.
\<close>

definition example_platform :: platform where
  "example_platform =
     \<lparr> SharedLibrary_constructor =
         (\<lambda>p. if p = ''/p/libA'' then load_runs [ProxyExec ''Foo'' ''Base'' ''4Base'' []]
              else if p = ''/p/libB'' then load_runs [ProxyExec ''Bar'' ''Base'' ''4Base'' []]
              else load_runtime_error),
       SharedLibrary_unload_library = (\<lambda>p. unload_runs []) \<rparr>"

text \<open>Loader 0 is constructed for /p/libA and loads it in its constructor.\<close>

definition one_loader :: process where
  "one_loader = snd (new_ClassLoader example_platform ''/p/libA'' False process_start)"

text \<open>Then loader 1 is constructed for the same library in on-demand mode: it loads nothing.\<close>

definition two_loaders :: process where
  "two_loaders = snd (new_ClassLoader example_platform ''/p/libA'' True one_loader)"

text \<open>Loader 0 of \<open>one_loader\<close> creates a shared instance of Foo, which is still alive.\<close>

definition one_live_instance :: process where
  "one_live_instance =
     snd (ClassLoader_createInstance example_platform ''4Base'' ''Foo'' 0 one_loader)"

text \<open>An on-demand loader 0 for a path that cannot be opened.\<close>

definition missing_library_loader :: process where
  "missing_library_loader =
     snd (new_ClassLoader example_platform ''/p/missing'' True process_start)"

text \<open>A loader 0 with the empty library path (a library linked at link time).\<close>

definition linked_library_loader :: process where
  "linked_library_loader = snd (new_ClassLoader example_platform [] False process_start)"

text \<open>
  An ownerless factory for class Baz is registered while no library is being loaded (a
  library linked at link time does this before main), a loader 0 with the empty library
  path is constructed, and it creates a shared instance of Baz, which is still alive.
\<close>

definition linked_live_instance :: process where
  "linked_live_instance =
     snd (ClassLoader_createInstance example_platform ''4Base'' ''Baz'' 0
            (snd (new_ClassLoader example_platform [] False
                    (snd (registerPlugin ''4Base'' ''Baz'' ''Base'' process_start)))))"

text \<open>An on-demand loader 0 for /p/libA: nothing is loaded yet.\<close>

definition on_demand_loader :: process where
  "on_demand_loader = snd (new_ClassLoader example_platform ''/p/libA'' True process_start)"

text \<open>
  After \<open>one_loader\<close>, a factory for class Baz is registered while no library is being
  loaded: the non-pure flag is raised.
\<close>

definition non_pure_process :: process where
  "non_pure_process = snd (registerPlugin ''4Base'' ''Baz'' ''Base'' one_loader)"

text \<open>A MultiLibraryClassLoader that has loaded /p/libB (its child is loader 0).\<close>

definition multi_loader_of_libB :: "MultiLibraryClassLoaderImpl \<times> process" where
  "multi_loader_of_libB =
     snd (MultiLibraryClassLoader_loadLibrary example_platform ''/p/libB''
            (MultiLibraryClassLoader False) process_start)"

text \<open>
  The same MultiLibraryClassLoader after the two-argument createInstance was called for
  /p/libA, which it never loaded.
\<close>

definition multi_loader_after_failed_create :: MultiLibraryClassLoaderImpl where
  "multi_loader_after_failed_create =
     fst (snd (MultiLibraryClassLoader_createInstance_from example_platform ''4Base'' ''Bar''
                 ''/p/libA'' (fst multi_loader_of_libB) (snd multi_loader_of_libB)))"



section \<open>Observations and runs of calls\<close>




text \<open>loadLibrary() of a loader called k times, and unloadLibrary() called n times with its results.\<close>

fun loadLibrary_times :: "platform \<Rightarrow> nat \<Rightarrow> nat \<Rightarrow> process \<Rightarrow> process" where
  "loadLibrary_times os this 0 s = s"
| "loadLibrary_times os this (Suc k) s =
     loadLibrary_times os this k (snd (ClassLoader_loadLibrary os this s))"

fun unloadLibrary_times ::
  "platform \<Rightarrow> nat \<Rightarrow> nat \<Rightarrow> process \<Rightarrow> (exception + int) list \<times> process" where
  "unloadLibrary_times os this 0 s = ([], s)"
| "unloadLibrary_times os this (Suc n) s =
     (let (r, s1) = ClassLoader_unloadLibrary os this s;
          (rs, s2) = unloadLibrary_times os this n s1
      in (r # rs, s2))"

text \<open>
  A call of registerPlugin, loadLibrary, unloadLibrary, createInstance or
  getAvailableClasses of class\_loader\_core, or of the constructor, loadLibrary,
  unloadLibrary, createRawInstance (which createInstance, createUniqueInstance and
  createUnmanagedInstance wrap), onPluginDeletion or the destructor of a ClassLoader; and
  the state after a sequence of such calls, each on a platform of its own choice. A call
  that throws leaves the state it had reached.
\<close>

datatype call =
    registerPlugin_call string string string
  | loadLibrary_call LibraryPath loader_ptr
  | unloadLibrary_call LibraryPath loader_ptr
  | createInstance_call string string loader_ptr
  | getAvailableClasses_call string loader_ptr
  | new_ClassLoader_call string bool
  | ClassLoader_loadLibrary_call nat
  | ClassLoader_unloadLibrary_call nat
  | createRawInstance_call string string bool nat
  | onPluginDeletion_call "plugin option" nat
  | ClassLoader_destructor_call nat

fun call_step :: "platform \<Rightarrow> call \<Rightarrow> process \<Rightarrow> process" where
  "call_step os (registerPlugin_call typeid_Base class_name base_class_name) s =
     snd (registerPlugin typeid_Base class_name base_class_name s)"
| "call_step os (loadLibrary_call library_path loader) s =
     snd (loadLibrary os library_path loader s)"
| "call_step os (unloadLibrary_call library_path loader) s =
     snd (unloadLibrary os library_path loader s)"
| "call_step os (createInstance_call typeid_Base derived_class_name loader) s =
     snd (createInstance typeid_Base derived_class_name loader s)"
| "call_step os (getAvailableClasses_call typeid_Base loader) s =
     snd (getAvailableClasses typeid_Base loader s)"
| "call_step os (new_ClassLoader_call library_path ondemand_load_unload) s =
     snd (new_ClassLoader os library_path ondemand_load_unload s)"
| "call_step os (ClassLoader_loadLibrary_call this) s =
     snd (ClassLoader_loadLibrary os this s)"
| "call_step os (ClassLoader_unloadLibrary_call this) s =
     snd (ClassLoader_unloadLibrary os this s)"
| "call_step os (createRawInstance_call typeid_Base derived_class_name managed this) s =
     snd (createRawInstance os typeid_Base derived_class_name managed this s)"
| "call_step os (onPluginDeletion_call obj this) s =
     snd (onPluginDeletion os obj this s)"
| "call_step os (ClassLoader_destructor_call this) s =
     snd (ClassLoader_destructor os this s)"

definition calls_run :: "(platform \<times> call) list \<Rightarrow> process \<Rightarrow> process" where
  "calls_run calls s = foldl (\<lambda>s1 c. call_step (fst c) (snd c) s1) s calls"

section \<open>The fields of the state after each elementary step\<close>

lemma map_find_map_assign: "map_find k (map_assign k v m) = Some v"
  by (induction m) (auto simp: map_find_def)

lemma map_find_map_assign_other: "k' \<noteq> k \<Longrightarrow> map_find k' (map_assign k v m) = map_find k' m"
  by (induction m) (auto simp: map_find_def)

lemma CONSOLE_BRIDGE_log_fields [simp]:
  "getGlobalPluginBaseToFactoryMapMap (CONSOLE_BRIDGE_log level msg s) = getGlobalPluginBaseToFactoryMapMap s"
  "getMetaObjectGraveyard (CONSOLE_BRIDGE_log level msg s) = getMetaObjectGraveyard s"
  "getLoadedLibraryVector (CONSOLE_BRIDGE_log level msg s) = getLoadedLibraryVector s"
  "getCurrentlyLoadingLibraryNameReference (CONSOLE_BRIDGE_log level msg s) = getCurrentlyLoadingLibraryNameReference s"
  "getCurrentlyActiveClassLoaderReference (CONSOLE_BRIDGE_log level msg s) = getCurrentlyActiveClassLoaderReference s"
  "hasANonPurePluginLibraryBeenOpenedReference (CONSOLE_BRIDGE_log level msg s) = hasANonPurePluginLibraryBeenOpenedReference s"
  "has_unmananged_instance_been_created' (CONSOLE_BRIDGE_log level msg s) = has_unmananged_instance_been_created' s"
  "class_loader_ptrs' (CONSOLE_BRIDGE_log level msg s) = class_loader_ptrs' s"
  "meta_objects (CONSOLE_BRIDGE_log level msg s) = meta_objects s"
  "meta_objects_lim (CONSOLE_BRIDGE_log level msg s) = meta_objects_lim s"
  "meta_objects_deleted (CONSOLE_BRIDGE_log level msg s) = meta_objects_deleted s"
  "class_loaders (CONSOLE_BRIDGE_log level msg s) = class_loaders s"
  "class_loaders_lim (CONSOLE_BRIDGE_log level msg s) = class_loaders_lim s"
  "console_bridge (CONSOLE_BRIDGE_log level msg s) = console_bridge s @ [(level, msg)]"
  by (simp_all add: CONSOLE_BRIDGE_log_def)

lemma meta_object_call_fields [simp]:
  "getGlobalPluginBaseToFactoryMapMap (meta_object_call p f s) = getGlobalPluginBaseToFactoryMapMap s"
  "getMetaObjectGraveyard (meta_object_call p f s) = getMetaObjectGraveyard s"
  "getLoadedLibraryVector (meta_object_call p f s) = getLoadedLibraryVector s"
  "getCurrentlyLoadingLibraryNameReference (meta_object_call p f s) = getCurrentlyLoadingLibraryNameReference s"
  "getCurrentlyActiveClassLoaderReference (meta_object_call p f s) = getCurrentlyActiveClassLoaderReference s"
  "hasANonPurePluginLibraryBeenOpenedReference (meta_object_call p f s) = hasANonPurePluginLibraryBeenOpenedReference s"
  "has_unmananged_instance_been_created' (meta_object_call p f s) = has_unmananged_instance_been_created' s"
  "class_loader_ptrs' (meta_object_call p f s) = class_loader_ptrs' s"
  "meta_objects (meta_object_call p f s) = (meta_objects s)(p := f (meta_objects s p))"
  "meta_objects_lim (meta_object_call p f s) = meta_objects_lim s"
  "meta_objects_deleted (meta_object_call p f s) = meta_objects_deleted s"
  "class_loaders (meta_object_call p f s) = class_loaders s"
  "class_loaders_lim (meta_object_call p f s) = class_loaders_lim s"
  "console_bridge (meta_object_call p f s) = console_bridge s"
  by (simp_all add: meta_object_call_def)

lemma new_MetaObject_fields [simp]:
  "getGlobalPluginBaseToFactoryMapMap (snd (new_MetaObject class_name base_class_name typeid_Base s)) = getGlobalPluginBaseToFactoryMapMap s"
  "getMetaObjectGraveyard (snd (new_MetaObject class_name base_class_name typeid_Base s)) = getMetaObjectGraveyard s"
  "getLoadedLibraryVector (snd (new_MetaObject class_name base_class_name typeid_Base s)) = getLoadedLibraryVector s"
  "getCurrentlyLoadingLibraryNameReference (snd (new_MetaObject class_name base_class_name typeid_Base s)) = getCurrentlyLoadingLibraryNameReference s"
  "getCurrentlyActiveClassLoaderReference (snd (new_MetaObject class_name base_class_name typeid_Base s)) = getCurrentlyActiveClassLoaderReference s"
  "hasANonPurePluginLibraryBeenOpenedReference (snd (new_MetaObject class_name base_class_name typeid_Base s)) = hasANonPurePluginLibraryBeenOpenedReference s"
  "has_unmananged_instance_been_created' (snd (new_MetaObject class_name base_class_name typeid_Base s)) = has_unmananged_instance_been_created' s"
  "class_loader_ptrs' (snd (new_MetaObject class_name base_class_name typeid_Base s)) = class_loader_ptrs' s"
  "meta_objects (snd (new_MetaObject class_name base_class_name typeid_Base s)) = (meta_objects s)(meta_objects_lim s := AbstractMetaObjectBase class_name base_class_name typeid_Base)"
  "meta_objects_lim (snd (new_MetaObject class_name base_class_name typeid_Base s)) = Suc (meta_objects_lim s)"
  "meta_objects_deleted (snd (new_MetaObject class_name base_class_name typeid_Base s)) = meta_objects_deleted s"
  "class_loaders (snd (new_MetaObject class_name base_class_name typeid_Base s)) = class_loaders s"
  "class_loaders_lim (snd (new_MetaObject class_name base_class_name typeid_Base s)) = class_loaders_lim s"
  "console_bridge (snd (new_MetaObject class_name base_class_name typeid_Base s)) = console_bridge s @ [(Debug, Creating_MetaObject)]"
  by (simp_all add: new_MetaObject_def Let_def)

lemma getFactoryMapForBaseClass_fields [simp]:
  "getGlobalPluginBaseToFactoryMapMap (snd (getFactoryMapForBaseClass typeid_base_class_name s)) = (if map_find typeid_base_class_name (getGlobalPluginBaseToFactoryMapMap s) = None
      then map_assign typeid_base_class_name [] (getGlobalPluginBaseToFactoryMapMap s)
      else getGlobalPluginBaseToFactoryMapMap s)"
  "getMetaObjectGraveyard (snd (getFactoryMapForBaseClass typeid_base_class_name s)) = getMetaObjectGraveyard s"
  "getLoadedLibraryVector (snd (getFactoryMapForBaseClass typeid_base_class_name s)) = getLoadedLibraryVector s"
  "getCurrentlyLoadingLibraryNameReference (snd (getFactoryMapForBaseClass typeid_base_class_name s)) = getCurrentlyLoadingLibraryNameReference s"
  "getCurrentlyActiveClassLoaderReference (snd (getFactoryMapForBaseClass typeid_base_class_name s)) = getCurrentlyActiveClassLoaderReference s"
  "hasANonPurePluginLibraryBeenOpenedReference (snd (getFactoryMapForBaseClass typeid_base_class_name s)) = hasANonPurePluginLibraryBeenOpenedReference s"
  "has_unmananged_instance_been_created' (snd (getFactoryMapForBaseClass typeid_base_class_name s)) = has_unmananged_instance_been_created' s"
  "class_loader_ptrs' (snd (getFactoryMapForBaseClass typeid_base_class_name s)) = class_loader_ptrs' s"
  "meta_objects (snd (getFactoryMapForBaseClass typeid_base_class_name s)) = meta_objects s"
  "meta_objects_lim (snd (getFactoryMapForBaseClass typeid_base_class_name s)) = meta_objects_lim s"
  "meta_objects_deleted (snd (getFactoryMapForBaseClass typeid_base_class_name s)) = meta_objects_deleted s"
  "class_loaders (snd (getFactoryMapForBaseClass typeid_base_class_name s)) = class_loaders s"
  "class_loaders_lim (snd (getFactoryMapForBaseClass typeid_base_class_name s)) = class_loaders_lim s"
  "console_bridge (snd (getFactoryMapForBaseClass typeid_base_class_name s)) = console_bridge s"
  by (simp_all add: getFactoryMapForBaseClass_def Let_def map_index_def case_prod_beta map_find_map_assign split: option.splits)

lemma store_FactoryMap_fields [simp]:
  "getGlobalPluginBaseToFactoryMapMap (store_FactoryMap typeid_base_class_name factoryMap s) = map_assign typeid_base_class_name factoryMap (getGlobalPluginBaseToFactoryMapMap s)"
  "getMetaObjectGraveyard (store_FactoryMap typeid_base_class_name factoryMap s) = getMetaObjectGraveyard s"
  "getLoadedLibraryVector (store_FactoryMap typeid_base_class_name factoryMap s) = getLoadedLibraryVector s"
  "getCurrentlyLoadingLibraryNameReference (store_FactoryMap typeid_base_class_name factoryMap s) = getCurrentlyLoadingLibraryNameReference s"
  "getCurrentlyActiveClassLoaderReference (store_FactoryMap typeid_base_class_name factoryMap s) = getCurrentlyActiveClassLoaderReference s"
  "hasANonPurePluginLibraryBeenOpenedReference (store_FactoryMap typeid_base_class_name factoryMap s) = hasANonPurePluginLibraryBeenOpenedReference s"
  "has_unmananged_instance_been_created' (store_FactoryMap typeid_base_class_name factoryMap s) = has_unmananged_instance_been_created' s"
  "class_loader_ptrs' (store_FactoryMap typeid_base_class_name factoryMap s) = class_loader_ptrs' s"
  "meta_objects (store_FactoryMap typeid_base_class_name factoryMap s) = meta_objects s"
  "meta_objects_lim (store_FactoryMap typeid_base_class_name factoryMap s) = meta_objects_lim s"
  "meta_objects_deleted (store_FactoryMap typeid_base_class_name factoryMap s) = meta_objects_deleted s"
  "class_loaders (store_FactoryMap typeid_base_class_name factoryMap s) = class_loaders s"
  "class_loaders_lim (store_FactoryMap typeid_base_class_name factoryMap s) = class_loaders_lim s"
  "console_bridge (store_FactoryMap typeid_base_class_name factoryMap s) = console_bridge s"
  by (simp_all add: store_FactoryMap_def)

lemma setCurrentlyLoadingLibraryName_fields [simp]:
  "getGlobalPluginBaseToFactoryMapMap (setCurrentlyLoadingLibraryName library_name s) = getGlobalPluginBaseToFactoryMapMap s"
  "getMetaObjectGraveyard (setCurrentlyLoadingLibraryName library_name s) = getMetaObjectGraveyard s"
  "getLoadedLibraryVector (setCurrentlyLoadingLibraryName library_name s) = getLoadedLibraryVector s"
  "getCurrentlyLoadingLibraryNameReference (setCurrentlyLoadingLibraryName library_name s) = library_name"
  "getCurrentlyActiveClassLoaderReference (setCurrentlyLoadingLibraryName library_name s) = getCurrentlyActiveClassLoaderReference s"
  "hasANonPurePluginLibraryBeenOpenedReference (setCurrentlyLoadingLibraryName library_name s) = hasANonPurePluginLibraryBeenOpenedReference s"
  "has_unmananged_instance_been_created' (setCurrentlyLoadingLibraryName library_name s) = has_unmananged_instance_been_created' s"
  "class_loader_ptrs' (setCurrentlyLoadingLibraryName library_name s) = class_loader_ptrs' s"
  "meta_objects (setCurrentlyLoadingLibraryName library_name s) = meta_objects s"
  "meta_objects_lim (setCurrentlyLoadingLibraryName library_name s) = meta_objects_lim s"
  "meta_objects_deleted (setCurrentlyLoadingLibraryName library_name s) = meta_objects_deleted s"
  "class_loaders (setCurrentlyLoadingLibraryName library_name s) = class_loaders s"
  "class_loaders_lim (setCurrentlyLoadingLibraryName library_name s) = class_loaders_lim s"
  "console_bridge (setCurrentlyLoadingLibraryName library_name s) = console_bridge s"
  by (simp_all add: setCurrentlyLoadingLibraryName_def)

lemma setCurrentlyActiveClassLoader_fields [simp]:
  "getGlobalPluginBaseToFactoryMapMap (setCurrentlyActiveClassLoader loader s) = getGlobalPluginBaseToFactoryMapMap s"
  "getMetaObjectGraveyard (setCurrentlyActiveClassLoader loader s) = getMetaObjectGraveyard s"
  "getLoadedLibraryVector (setCurrentlyActiveClassLoader loader s) = getLoadedLibraryVector s"
  "getCurrentlyLoadingLibraryNameReference (setCurrentlyActiveClassLoader loader s) = getCurrentlyLoadingLibraryNameReference s"
  "getCurrentlyActiveClassLoaderReference (setCurrentlyActiveClassLoader loader s) = loader"
  "hasANonPurePluginLibraryBeenOpenedReference (setCurrentlyActiveClassLoader loader s) = hasANonPurePluginLibraryBeenOpenedReference s"
  "has_unmananged_instance_been_created' (setCurrentlyActiveClassLoader loader s) = has_unmananged_instance_been_created' s"
  "class_loader_ptrs' (setCurrentlyActiveClassLoader loader s) = class_loader_ptrs' s"
  "meta_objects (setCurrentlyActiveClassLoader loader s) = meta_objects s"
  "meta_objects_lim (setCurrentlyActiveClassLoader loader s) = meta_objects_lim s"
  "meta_objects_deleted (setCurrentlyActiveClassLoader loader s) = meta_objects_deleted s"
  "class_loaders (setCurrentlyActiveClassLoader loader s) = class_loaders s"
  "class_loaders_lim (setCurrentlyActiveClassLoader loader s) = class_loaders_lim s"
  "console_bridge (setCurrentlyActiveClassLoader loader s) = console_bridge s"
  by (simp_all add: setCurrentlyActiveClassLoader_def)

lemma hasANonPurePluginLibraryBeenOpened_set_fields [simp]:
  "getGlobalPluginBaseToFactoryMapMap (hasANonPurePluginLibraryBeenOpened_set hasIt s) = getGlobalPluginBaseToFactoryMapMap s"
  "getMetaObjectGraveyard (hasANonPurePluginLibraryBeenOpened_set hasIt s) = getMetaObjectGraveyard s"
  "getLoadedLibraryVector (hasANonPurePluginLibraryBeenOpened_set hasIt s) = getLoadedLibraryVector s"
  "getCurrentlyLoadingLibraryNameReference (hasANonPurePluginLibraryBeenOpened_set hasIt s) = getCurrentlyLoadingLibraryNameReference s"
  "getCurrentlyActiveClassLoaderReference (hasANonPurePluginLibraryBeenOpened_set hasIt s) = getCurrentlyActiveClassLoaderReference s"
  "hasANonPurePluginLibraryBeenOpenedReference (hasANonPurePluginLibraryBeenOpened_set hasIt s) = hasIt"
  "has_unmananged_instance_been_created' (hasANonPurePluginLibraryBeenOpened_set hasIt s) = has_unmananged_instance_been_created' s"
  "class_loader_ptrs' (hasANonPurePluginLibraryBeenOpened_set hasIt s) = class_loader_ptrs' s"
  "meta_objects (hasANonPurePluginLibraryBeenOpened_set hasIt s) = meta_objects s"
  "meta_objects_lim (hasANonPurePluginLibraryBeenOpened_set hasIt s) = meta_objects_lim s"
  "meta_objects_deleted (hasANonPurePluginLibraryBeenOpened_set hasIt s) = meta_objects_deleted s"
  "class_loaders (hasANonPurePluginLibraryBeenOpened_set hasIt s) = class_loaders s"
  "class_loaders_lim (hasANonPurePluginLibraryBeenOpened_set hasIt s) = class_loaders_lim s"
  "console_bridge (hasANonPurePluginLibraryBeenOpened_set hasIt s) = console_bridge s"
  by (simp_all add: hasANonPurePluginLibraryBeenOpened_set_def)

lemma setUnmanagedInstanceBeenCreated_fields [simp]:
  "getGlobalPluginBaseToFactoryMapMap (setUnmanagedInstanceBeenCreated state s) = getGlobalPluginBaseToFactoryMapMap s"
  "getMetaObjectGraveyard (setUnmanagedInstanceBeenCreated state s) = getMetaObjectGraveyard s"
  "getLoadedLibraryVector (setUnmanagedInstanceBeenCreated state s) = getLoadedLibraryVector s"
  "getCurrentlyLoadingLibraryNameReference (setUnmanagedInstanceBeenCreated state s) = getCurrentlyLoadingLibraryNameReference s"
  "getCurrentlyActiveClassLoaderReference (setUnmanagedInstanceBeenCreated state s) = getCurrentlyActiveClassLoaderReference s"
  "hasANonPurePluginLibraryBeenOpenedReference (setUnmanagedInstanceBeenCreated state s) = hasANonPurePluginLibraryBeenOpenedReference s"
  "has_unmananged_instance_been_created' (setUnmanagedInstanceBeenCreated state s) = state"
  "class_loader_ptrs' (setUnmanagedInstanceBeenCreated state s) = class_loader_ptrs' s"
  "meta_objects (setUnmanagedInstanceBeenCreated state s) = meta_objects s"
  "meta_objects_lim (setUnmanagedInstanceBeenCreated state s) = meta_objects_lim s"
  "meta_objects_deleted (setUnmanagedInstanceBeenCreated state s) = meta_objects_deleted s"
  "class_loaders (setUnmanagedInstanceBeenCreated state s) = class_loaders s"
  "class_loaders_lim (setUnmanagedInstanceBeenCreated state s) = class_loaders_lim s"
  "console_bridge (setUnmanagedInstanceBeenCreated state s) = console_bridge s"
  by (simp_all add: setUnmanagedInstanceBeenCreated_def)

lemma insertMetaObjectIntoGraveyard_fields [simp]:
  "getGlobalPluginBaseToFactoryMapMap (insertMetaObjectIntoGraveyard meta_obj s) = getGlobalPluginBaseToFactoryMapMap s"
  "getMetaObjectGraveyard (insertMetaObjectIntoGraveyard meta_obj s) = getMetaObjectGraveyard s @ [meta_obj]"
  "getLoadedLibraryVector (insertMetaObjectIntoGraveyard meta_obj s) = getLoadedLibraryVector s"
  "getCurrentlyLoadingLibraryNameReference (insertMetaObjectIntoGraveyard meta_obj s) = getCurrentlyLoadingLibraryNameReference s"
  "getCurrentlyActiveClassLoaderReference (insertMetaObjectIntoGraveyard meta_obj s) = getCurrentlyActiveClassLoaderReference s"
  "hasANonPurePluginLibraryBeenOpenedReference (insertMetaObjectIntoGraveyard meta_obj s) = hasANonPurePluginLibraryBeenOpenedReference s"
  "has_unmananged_instance_been_created' (insertMetaObjectIntoGraveyard meta_obj s) = has_unmananged_instance_been_created' s"
  "class_loader_ptrs' (insertMetaObjectIntoGraveyard meta_obj s) = class_loader_ptrs' s"
  "meta_objects (insertMetaObjectIntoGraveyard meta_obj s) = meta_objects s"
  "meta_objects_lim (insertMetaObjectIntoGraveyard meta_obj s) = meta_objects_lim s"
  "meta_objects_deleted (insertMetaObjectIntoGraveyard meta_obj s) = meta_objects_deleted s"
  "class_loaders (insertMetaObjectIntoGraveyard meta_obj s) = class_loaders s"
  "class_loaders_lim (insertMetaObjectIntoGraveyard meta_obj s) = class_loaders_lim s"
  "console_bridge (insertMetaObjectIntoGraveyard meta_obj s) = console_bridge s @ [(Debug, Inserting_MetaObject_into_graveyard)]"
  by (simp_all add: insertMetaObjectIntoGraveyard_def Let_def)

lemma MetaObject_deleter_fields [simp]:
  "getGlobalPluginBaseToFactoryMapMap (MetaObject_deleter p s) = erase_from_first_FactoryMap p (getGlobalPluginBaseToFactoryMapMap s)"
  "getMetaObjectGraveyard (MetaObject_deleter p s) = remove1 p (getMetaObjectGraveyard s)"
  "getLoadedLibraryVector (MetaObject_deleter p s) = getLoadedLibraryVector s"
  "getCurrentlyLoadingLibraryNameReference (MetaObject_deleter p s) = getCurrentlyLoadingLibraryNameReference s"
  "getCurrentlyActiveClassLoaderReference (MetaObject_deleter p s) = getCurrentlyActiveClassLoaderReference s"
  "hasANonPurePluginLibraryBeenOpenedReference (MetaObject_deleter p s) = hasANonPurePluginLibraryBeenOpenedReference s"
  "has_unmananged_instance_been_created' (MetaObject_deleter p s) = has_unmananged_instance_been_created' s"
  "class_loader_ptrs' (MetaObject_deleter p s) = class_loader_ptrs' s"
  "meta_objects (MetaObject_deleter p s) = meta_objects s"
  "meta_objects_lim (MetaObject_deleter p s) = meta_objects_lim s"
  "meta_objects_deleted (MetaObject_deleter p s) = meta_objects_deleted s @ [p]"
  "class_loaders (MetaObject_deleter p s) = class_loaders s"
  "class_loaders_lim (MetaObject_deleter p s) = class_loaders_lim s"
  "console_bridge (MetaObject_deleter p s) = console_bridge s @ [(Debug, Destroying_MetaObject)]"
  by (simp_all add: MetaObject_deleter_def Let_def)

lemma ClassLoader_call_fields [simp]:
  "getGlobalPluginBaseToFactoryMapMap (ClassLoader_call this f s) = getGlobalPluginBaseToFactoryMapMap s"
  "getMetaObjectGraveyard (ClassLoader_call this f s) = getMetaObjectGraveyard s"
  "getLoadedLibraryVector (ClassLoader_call this f s) = getLoadedLibraryVector s"
  "getCurrentlyLoadingLibraryNameReference (ClassLoader_call this f s) = getCurrentlyLoadingLibraryNameReference s"
  "getCurrentlyActiveClassLoaderReference (ClassLoader_call this f s) = getCurrentlyActiveClassLoaderReference s"
  "hasANonPurePluginLibraryBeenOpenedReference (ClassLoader_call this f s) = hasANonPurePluginLibraryBeenOpenedReference s"
  "has_unmananged_instance_been_created' (ClassLoader_call this f s) = has_unmananged_instance_been_created' s"
  "class_loader_ptrs' (ClassLoader_call this f s) = class_loader_ptrs' s"
  "meta_objects (ClassLoader_call this f s) = meta_objects s"
  "meta_objects_lim (ClassLoader_call this f s) = meta_objects_lim s"
  "meta_objects_deleted (ClassLoader_call this f s) = meta_objects_deleted s"
  "class_loaders (ClassLoader_call this f s) = (class_loaders s)(this := f (class_loaders s this))"
  "class_loaders_lim (ClassLoader_call this f s) = class_loaders_lim s"
  "console_bridge (ClassLoader_call this f s) = console_bridge s"
  by (simp_all add: ClassLoader_call_def)

lemma new_MetaObject_address [simp]:
  "fst (new_MetaObject class_name base_class_name typeid_Base s) = meta_objects_lim s"
  by (simp add: new_MetaObject_def Let_def)

lemma getFactoryMapForBaseClass_value [simp]:
  "fst (getFactoryMapForBaseClass typeid_base_class_name s) =
     (case map_find typeid_base_class_name (getGlobalPluginBaseToFactoryMapMap s) of
        None \<Rightarrow> []
      | Some factoryMap \<Rightarrow> factoryMap)"
  by (simp add: getFactoryMapForBaseClass_def Let_def map_index_def case_prod_beta
      map_find_map_assign split: option.splits)

section \<open>Owners of a meta object\<close>

lemma addOwningClassLoader_distinct:
  "distinct (associated_class_loaders' obj) \<Longrightarrow>
   distinct (associated_class_loaders' (addOwningClassLoader loader obj))"
  by (simp add: addOwningClassLoader_def Let_def)

lemma removeOwningClassLoader_distinct:
  "distinct (associated_class_loaders' obj) \<Longrightarrow>
   distinct (associated_class_loaders' (removeOwningClassLoader loader obj))"
  by (simp add: removeOwningClassLoader_def Let_def)

lemma owner_step_distinct:
  "distinct (associated_class_loaders' obj) \<Longrightarrow>
   distinct (associated_class_loaders' (owner_step obj x))"
  by (cases x) (simp_all add: addOwningClassLoader_distinct removeOwningClassLoader_distinct)

lemma owner_steps_distinct:
  "distinct (associated_class_loaders' obj) \<Longrightarrow>
   distinct (associated_class_loaders' (owner_steps obj ops))"
  unfolding owner_steps_def
  by (induction ops arbitrary: obj) (simp_all add: owner_step_distinct)

lemma distinct_count_list_le_1: "distinct xs \<Longrightarrow> count_list xs x \<le> 1"
  by (induction xs) (auto simp: count_list_0_iff)

text \<open>
  C9. The owners list of a meta object never holds a loader twice. A meta object leaves
  its constructor with no owner; after any sequence of addOwningClassLoader and
  removeOwningClassLoader calls, every loader pointer, the null pointer included, occurs
  at most once in the list, and addOwningClassLoader of a loader that is already an owner
  changes nothing.
\<close>

theorem C9_owners_never_duplicated:
  "count_list
     (associated_class_loaders'
        (owner_steps (AbstractMetaObjectBase class_name base_class_name typeid_name) ops))
     loader \<le> 1
   \<and> distinct
     (associated_class_loaders'
        (owner_steps (AbstractMetaObjectBase class_name base_class_name typeid_name) ops))
   \<and> (isOwnedBy loader obj \<longrightarrow> addOwningClassLoader loader obj = obj)"
proof -
  let ?v = "associated_class_loaders'
        (owner_steps (AbstractMetaObjectBase class_name base_class_name typeid_name) ops)"
  have d: "distinct ?v"
    by (rule owner_steps_distinct) (simp add: AbstractMetaObjectBase_def)
  have c: "count_list ?v loader \<le> 1"
    using d by (rule distinct_count_list_le_1)
  have a: "isOwnedBy loader obj \<longrightarrow> addOwningClassLoader loader obj = obj"
    by (simp add: isOwnedBy_def addOwningClassLoader_def Let_def)
  from c d a show ?thesis by blast
qed

theorem C9_owners_never_duplicated_witness:
  "associated_class_loaders'
     (owner_steps (AbstractMetaObjectBase ''Foo'' ''Base'' ''4Base'')
        [AddOwner None, AddOwner (Some 1), AddOwner None, AddOwner (Some 1),
         RemoveOwner None, AddOwner (Some 2), AddOwner None])
   = [Some 1, Some 2, None]
   \<and> count_list
     (associated_class_loaders'
        (owner_steps (AbstractMetaObjectBase ''Foo'' ''Base'' ''4Base'')
           [AddOwner None, AddOwner (Some 1), AddOwner None, AddOwner (Some 1),
            RemoveOwner None, AddOwner (Some 2), AddOwner None]))
     None \<le> 1"
  using C9_owners_never_duplicated
    [of "''Foo''" "''Base''" "''4Base''"
        "[AddOwner None, AddOwner (Some 1), AddOwner None, AddOwner (Some 1),
          RemoveOwner None, AddOwner (Some 2), AddOwner None]" None]
  by (simp add: owner_steps_def AbstractMetaObjectBase_def addOwningClassLoader_def
      removeOwningClassLoader_def Let_def)

section \<open>The empty library path\<close>

text \<open>
  C8. For a ClassLoader whose library path is the empty string, loadLibrary returns
  normally and leaves the whole process state as it was (the load reference count is not
  incremented and the platform is not asked to open anything), and unloadLibrary returns 0
  and leaves the whole process state as it was.
\<close>

theorem C8_empty_library_path_is_inert:
  assumes "getLibraryPath this s = []"
  shows "ClassLoader_loadLibrary os this s = (Inr (), s)
       \<and> ClassLoader_unloadLibrary os this s = (Inr 0, s)"
  using assms by (simp add: ClassLoader_loadLibrary_def ClassLoader_unloadLibrary_def)

theorem C8_empty_library_path_is_inert_witness:
  "getLibraryPath 0 linked_library_loader = []
   \<and> load_ref_count' (class_loaders linked_library_loader 0) = 0
   \<and> ClassLoader_loadLibrary example_platform 0 linked_library_loader
       = (Inr (), linked_library_loader)
   \<and> ClassLoader_unloadLibrary example_platform 0 linked_library_loader
       = (Inr 0, linked_library_loader)"
proof -
  have p: "getLibraryPath 0 linked_library_loader = []"
    by code_simp
  have n: "load_ref_count' (class_loaders linked_library_loader 0) = 0"
    by code_simp
  from C8_empty_library_path_is_inert [OF p, of example_platform] p n
  show ?thesis by simp
qed

section \<open>Unloading while instances are alive\<close>

text \<open>
  When the plugin reference count of a ClassLoader is greater than zero,
  unloadLibraryInternal returns the current load reference count, and the process state
  after the call is the state before it with one more console message, the severe warning
  at level Warn.
\<close>

lemma unloadLibraryInternal_with_live_instances:
  assumes "plugin_ref_count' (class_loaders s this) > 0"
  shows "unloadLibraryInternal os this lock_plugin_ref_count s =
           (Inr (load_ref_count' (class_loaders s this)),
            s\<lparr>console_bridge := console_bridge s @ [(Warn, SEVERE_WARNING_objects_exist)]\<rparr>)"
  using assms by (simp add: unloadLibraryInternal_def Let_def CONSOLE_BRIDGE_log_def)

text \<open>
  C5, as the claim states it, fails for a loader with the empty library path. In
  \<open>linked_live_instance\<close> loader 0 has the empty library path and one live instance (of
  the ownerless class Baz). Its unloadLibrary returns 0 before it looks at the plugin
  reference count: the state, the console included, is as before, and the console holds no
  message of level Warn.
\<close>

theorem C5_empty_library_path_counterexample:
  "plugin_ref_count' (class_loaders linked_live_instance 0) = 1
   \<and> getLibraryPath 0 linked_live_instance = []
   \<and> ClassLoader_unloadLibrary example_platform 0 linked_live_instance
       = (Inr 0, linked_live_instance)
   \<and> console_bridge (snd (ClassLoader_unloadLibrary example_platform 0 linked_live_instance))
       = console_bridge linked_live_instance
   \<and> filter (\<lambda>e. fst e = Warn) (console_bridge linked_live_instance) = []"
proof -
  have n: "plugin_ref_count' (class_loaders linked_live_instance 0) = 1"
    by code_simp
  have p: "getLibraryPath 0 linked_live_instance = []"
    by code_simp
  have w: "filter (\<lambda>e. fst e = Warn) (console_bridge linked_live_instance) = []"
    by code_simp
  from n p w show ?thesis
    by (simp add: ClassLoader_unloadLibrary_def)
qed

text \<open>
  C5, amended. For every ClassLoader whose library path is not empty and whose plugin
  reference count is greater than zero, unloadLibrary returns the current load reference
  count, and the process state after the call is the state before it with one more console
  message, the severe warning at level Warn: the counters of the loader and every other
  loader, the vector of loaded libraries, the factory maps and the graveyard are as before,
  so nothing is closed.
\<close>

theorem C5_unloadLibrary_with_live_instances_is_refused:
  assumes "plugin_ref_count' (class_loaders s this) > 0" and "getLibraryPath this s \<noteq> []"
  shows "ClassLoader_unloadLibrary os this s =
           (Inr (load_ref_count' (class_loaders s this)),
            s\<lparr>console_bridge := console_bridge s @ [(Warn, SEVERE_WARNING_objects_exist)]\<rparr>)"
  using assms
  by (simp add: ClassLoader_unloadLibrary_def unloadLibraryInternal_with_live_instances)

theorem C5_unloadLibrary_with_live_instances_is_refused_witness:
  "plugin_ref_count' (class_loaders one_live_instance 0) = 1
   \<and> getLibraryPath 0 one_live_instance = ''/p/libA''
   \<and> fst (ClassLoader_unloadLibrary example_platform 0 one_live_instance) = Inr 1
   \<and> load_ref_count'
       (class_loaders (snd (ClassLoader_unloadLibrary example_platform 0 one_live_instance)) 0) = 1
   \<and> getLoadedLibraryVector (snd (ClassLoader_unloadLibrary example_platform 0 one_live_instance))
       = [(''/p/libA'', SharedLibrary ''/p/libA'')]
   \<and> console_bridge (snd (ClassLoader_unloadLibrary example_platform 0 one_live_instance))
       = console_bridge one_live_instance @ [(Warn, SEVERE_WARNING_objects_exist)]"
proof -
  have p: "plugin_ref_count' (class_loaders one_live_instance 0) = 1"
    by code_simp
  have n: "load_ref_count' (class_loaders one_live_instance 0) = 1"
    by code_simp
  have v: "getLoadedLibraryVector one_live_instance = [(''/p/libA'', SharedLibrary ''/p/libA'')]"
    by code_simp
  have l: "getLibraryPath 0 one_live_instance = ''/p/libA''"
    by code_simp
  have h1: "plugin_ref_count' (class_loaders one_live_instance 0) > 0"
    using p by simp
  have h2: "getLibraryPath 0 one_live_instance \<noteq> []"
    using l by simp
  from C5_unloadLibrary_with_live_instances_is_refused [OF h1 h2, of example_platform] p n v l
  show ?thesis by simp
qed

section \<open>isLibraryLoaded\<close>


text \<open>
  C1, on the code. In \<open>two_loaders\<close> the library /p/libA is resident, its one meta object
  (Foo, at address 0) is owned by loader 0 only, and loader 1 has never loaded the
  library. isLibraryLoaded of loader 1 is true all the same; createInstance of loader 1
  therefore skips loadLibrary and fails.
\<close>

theorem C1_isLibraryLoaded_ignores_owners:
  "isLibraryLoadedByAnybody ''/p/libA'' two_loaders
   \<and> allMetaObjectsForLibrary ''/p/libA'' two_loaders = [0]
   \<and> associated_class_loaders' (meta_objects two_loaders 0) = [Some 0]
   \<and> allMetaObjectsForLibraryOwnedBy ''/p/libA'' (Some 1) two_loaders = []
   \<and> load_ref_count' (class_loaders two_loaders 1) = 0
   \<and> ClassLoader_isLibraryLoaded 1 two_loaders
   \<and> fst (ClassLoader_createInstance example_platform ''4Base'' ''Foo'' 1 two_loaders)
       = Inl CreateClassException"
  by code_simp

section \<open>A failed open\<close>

text \<open>
  What loadLibrary of class\_loader\_core does when the platform cannot open the library:
  LibraryLoadException is thrown, the currently active loader and the currently loading
  library name are reset, and nothing else but the console has changed.
\<close>

lemma loadLibrary_open_fails:
  assumes "\<not> isLibraryLoadedByAnybody library_path s"
    and "SharedLibrary_constructor os library_path = load_runtime_error
         \<or> SharedLibrary_constructor os library_path = load_bad_alloc"
  shows "loadLibrary os library_path loader s =
           (Inl LibraryLoadException,
            s\<lparr>getCurrentlyLoadingLibraryNameReference := [],
              getCurrentlyActiveClassLoaderReference := None,
              console_bridge := console_bridge s
                @ [(Debug, Attempting_to_load_library)]\<rparr>)"
  using assms
  by (auto simp add: loadLibrary_def Let_def CONSOLE_BRIDGE_log_def isLibraryLoadedByAnybody_def
      findLoadedLibrary_def setCurrentlyActiveClassLoader_def setCurrentlyLoadingLibraryName_def)

text \<open>
  ClassLoader::loadLibrary has incremented the load reference count before that, and the
  exception leaves the increment in place.
\<close>

lemma ClassLoader_loadLibrary_open_fails:
  assumes "getLibraryPath this s \<noteq> []"
    and "\<not> isLibraryLoadedByAnybody (getLibraryPath this s) s"
    and "SharedLibrary_constructor os (getLibraryPath this s) = load_runtime_error
         \<or> SharedLibrary_constructor os (getLibraryPath this s) = load_bad_alloc"
  shows "fst (ClassLoader_loadLibrary os this s) = Inl LibraryLoadException"
    and "load_ref_count' (class_loaders (snd (ClassLoader_loadLibrary os this s)) this)
           = int_wrap (load_ref_count' (class_loaders s this) + 1)"
    and "getCurrentlyActiveClassLoader (snd (ClassLoader_loadLibrary os this s)) = None"
    and "getCurrentlyLoadingLibraryName (snd (ClassLoader_loadLibrary os this s)) = []"
proof -
  let ?s1 = "ClassLoader_call this
               (\<lambda>c. c\<lparr>load_ref_count' := int_wrap (load_ref_count' c + 1)\<rparr>) s"
  have path: "getLibraryPath this ?s1 = getLibraryPath this s"
    by (simp add: getLibraryPath_def)
  have absent: "\<not> isLibraryLoadedByAnybody (getLibraryPath this s) ?s1"
    using assms(2) by (simp add: isLibraryLoadedByAnybody_def findLoadedLibrary_def)
  have run: "ClassLoader_loadLibrary os this s
               = loadLibrary os (getLibraryPath this s) (Some this) ?s1"
    using assms(1) by (simp add: ClassLoader_loadLibrary_def Let_def path)
  note fails = loadLibrary_open_fails [OF absent assms(3), of "Some this"]
  show "fst (ClassLoader_loadLibrary os this s) = Inl LibraryLoadException"
    by (simp add: run fails)
  show "load_ref_count' (class_loaders (snd (ClassLoader_loadLibrary os this s)) this)
           = int_wrap (load_ref_count' (class_loaders s this) + 1)"
    by (simp add: run fails)
  show "getCurrentlyActiveClassLoader (snd (ClassLoader_loadLibrary os this s)) = None"
    by (simp add: run fails getCurrentlyActiveClassLoader_def)
  show "getCurrentlyLoadingLibraryName (snd (ClassLoader_loadLibrary os this s)) = []"
    by (simp add: run fails getCurrentlyLoadingLibraryName_def)
qed

text \<open>
  C3, on the code. The on-demand loader 0 of \<open>missing_library_loader\<close> has load reference
  count 0. Its loadLibrary throws LibraryLoadException and the Loading Context is cleared,
  but the load reference count is 1 afterwards, and 2 after a second failed attempt.
\<close>

theorem C3_failed_open_keeps_the_increment:
  "load_ref_count' (class_loaders missing_library_loader 0) = 0
   \<and> fst (ClassLoader_loadLibrary example_platform 0 missing_library_loader)
       = Inl LibraryLoadException
   \<and> getCurrentlyActiveClassLoader
       (snd (ClassLoader_loadLibrary example_platform 0 missing_library_loader)) = None
   \<and> getCurrentlyLoadingLibraryName
       (snd (ClassLoader_loadLibrary example_platform 0 missing_library_loader)) = []
   \<and> load_ref_count'
       (class_loaders (snd (ClassLoader_loadLibrary example_platform 0 missing_library_loader)) 0)
       = 1
   \<and> load_ref_count'
       (class_loaders
          (snd (ClassLoader_loadLibrary example_platform 0
                  (snd (ClassLoader_loadLibrary example_platform 0 missing_library_loader)))) 0)
       = 2"
  by code_simp

section \<open>Registration with no active loader\<close>

text \<open>
  C4, as the claim states it, fails: after registerPlugin in the starting process, where
  no loader is active, the owners list of the new meta object is not empty. It holds the
  null pointer, and isOwnedByAnybody is true.
\<close>

theorem C4_owners_not_empty_counterexample:
  "getCurrentlyActiveClassLoader process_start = None
   \<and> associated_class_loaders'
        (meta_objects (snd (registerPlugin ''4Base'' ''Foo'' ''Base'' process_start))
           (fst (registerPlugin ''4Base'' ''Foo'' ''Base'' process_start))) \<noteq> []
   \<and> isOwnedByAnybody
        (meta_objects (snd (registerPlugin ''4Base'' ''Foo'' ''Base'' process_start))
           (fst (registerPlugin ''4Base'' ''Foo'' ''Base'' process_start)))"
  by code_simp

text \<open>
  C4, amended. For every call of registerPlugin while no loader is active, the owners list
  of the new meta object holds exactly one entry, the null pointer (which isOwnedBy,
  createInstance and getAvailableClasses read as "no owner"), its library path is the
  currently loading library name, and the non-pure flag is raised.
\<close>

theorem C4_registration_without_active_loader:
  assumes "getCurrentlyActiveClassLoader s = None"
  shows "associated_class_loaders'
           (meta_objects (snd (registerPlugin typeid_Base class_name base_class_name s))
              (fst (registerPlugin typeid_Base class_name base_class_name s))) = [None]
    \<and> isOwnedBy None
           (meta_objects (snd (registerPlugin typeid_Base class_name base_class_name s))
              (fst (registerPlugin typeid_Base class_name base_class_name s)))
    \<and> associated_library_path'
           (meta_objects (snd (registerPlugin typeid_Base class_name base_class_name s))
              (fst (registerPlugin typeid_Base class_name base_class_name s)))
         = getCurrentlyLoadingLibraryName s
    \<and> hasANonPurePluginLibraryBeenOpened
           (snd (registerPlugin typeid_Base class_name base_class_name s))"
  using assms
  by (simp add: registerPlugin_def Let_def case_prod_beta
      getCurrentlyActiveClassLoader_def getCurrentlyLoadingLibraryName_def
      hasANonPurePluginLibraryBeenOpened_def addOwningClassLoader_def isOwnedBy_def
      setAssociatedLibraryPath_def AbstractMetaObjectBase_def)

theorem C4_registration_without_active_loader_witness:
  "getCurrentlyActiveClassLoader process_start = None
   \<and> associated_class_loaders'
        (meta_objects (snd (registerPlugin ''4Base'' ''Foo'' ''Base'' process_start)) 0) = [None]
   \<and> hasANonPurePluginLibraryBeenOpened
        (snd (registerPlugin ''4Base'' ''Foo'' ''Base'' process_start))
   \<and> \<not> hasANonPurePluginLibraryBeenOpened process_start"
proof -
  have a: "getCurrentlyActiveClassLoader process_start = None"
    by code_simp
  have p: "fst (registerPlugin ''4Base'' ''Foo'' ''Base'' process_start) = 0"
    by code_simp
  have f: "\<not> hasANonPurePluginLibraryBeenOpened process_start"
    by code_simp
  from C4_registration_without_active_loader [OF a, of "''4Base''" "''Foo''" "''Base''"] a p f
  show ?thesis by simp
qed

section \<open>What the functions of class\_loader\_core leave of the loaders\<close>

text \<open>None of the functions of class\_loader\_core writes to a ClassLoader object.\<close>

lemma foldl_preserves:
  assumes "\<And>s x. P (g s x) = P s"
  shows "P (foldl g s xs) = P s"
  using assms by (induction xs arbitrary: s) simp_all

lemma class_loaders_addClassLoaderOwner [simp]:
  "class_loaders (addClassLoaderOwnerForAllExistingMetaObjectsForLibrary library_path loader s)
     = class_loaders s"
  unfolding addClassLoaderOwnerForAllExistingMetaObjectsForLibrary_def
  by (rule foldl_preserves) simp

lemma class_loaders_revive [simp]:
  "class_loaders (revivePreviouslyCreateMetaobjectsFromGraveyard library_path loader s)
     = class_loaders s"
  unfolding revivePreviouslyCreateMetaobjectsFromGraveyard_def
  by (rule foldl_preserves) (simp add: Let_def case_prod_beta)

lemma class_loaders_purge_in [simp]:
  "class_loaders (snd (purgeGraveyardOfMetaobjects_in library_path graveyard s)) = class_loaders s"
  by (induction graveyard arbitrary: s) (simp_all add: case_prod_beta)

lemma class_loaders_purge [simp]:
  "class_loaders (purgeGraveyardOfMetaobjects library_path loader s) = class_loaders s"
  by (simp add: purgeGraveyardOfMetaobjects_def Let_def case_prod_beta)

lemma class_loaders_destroy_in [simp]:
  "class_loaders (snd (destroyMetaObjectsForLibrary_in library_path factories loader s))
     = class_loaders s"
  by (induction library_path factories loader s rule: destroyMetaObjectsForLibrary_in.induct)
     (simp_all add: Let_def case_prod_beta)

lemma class_loaders_destroy_maps [simp]:
  "class_loaders (snd (destroyMetaObjectsForLibrary_maps library_path factory_map_map loader s))
     = class_loaders s"
proof (induction factory_map_map arbitrary: s)
  case Nil
  show ?case by simp
next
  case (Cons a m)
  obtain base factories where a: "a = (base, factories)" by (cases a)
  show ?case unfolding a by (simp add: Let_def case_prod_beta Cons.IH)
qed

lemma class_loaders_destroy [simp]:
  "class_loaders (destroyMetaObjectsForLibrary library_path loader s) = class_loaders s"
  by (simp add: destroyMetaObjectsForLibrary_def Let_def case_prod_beta)

lemma class_loaders_static_destructors [simp]:
  "class_loaders (static_destructors holders s) = class_loaders s"
  unfolding static_destructors_def by (rule foldl_preserves) simp

lemma class_loaders_registerPlugin [simp]:
  "class_loaders (snd (registerPlugin typeid_Base class_name base_class_name s)) = class_loaders s"
  by (simp add: registerPlugin_def Let_def case_prod_beta)

lemma class_loaders_ProxyExec_constructor [simp]:
  "class_loaders (snd (ProxyExec_constructor x s)) = class_loaders s"
  by (simp add: ProxyExec_constructor_def)

lemma class_loaders_static_initializers [simp]:
  "class_loaders (snd (static_initializers xs s)) = class_loaders s"
  by (induction xs arbitrary: s) (simp_all add: Let_def case_prod_beta)

lemma class_loaders_loadLibrary [simp]:
  "class_loaders (snd (loadLibrary os library_path loader s)) = class_loaders s"
  by (simp add: loadLibrary_def Let_def case_prod_beta split: SharedLibrary_load.splits)

lemma class_loaders_unloadLibrary [simp]:
  "class_loaders (snd (unloadLibrary os library_path loader s)) = class_loaders s"
  by (simp add: unloadLibrary_def Let_def case_prod_beta
      split: SharedLibrary_unload.splits option.splits)

section \<open>Loading k times, then unloading\<close>

lemma first_index_Some: "first_index P xs = Some i \<Longrightarrow> i < length xs \<and> P (xs ! i)"
  by (induction xs arbitrary: i) (auto split: if_splits)

lemma unloadLibrary_returns:
  assumes "SharedLibrary_unload_library os library_path \<noteq> unload_runtime_error"
  shows "fst (unloadLibrary os library_path loader s) = Inr ()"
proof (cases "findLoadedLibrary library_path (CONSOLE_BRIDGE_logDebug Unloading_library s)")
  case None
  then show ?thesis by (simp add: unloadLibrary_def Let_def)
next
  case (Some itr)
  then have "fst (getLoadedLibraryVector s ! itr) = library_path"
    using first_index_Some [of "\<lambda>it. fst it = library_path" "getLoadedLibraryVector s" itr]
    by (simp add: findLoadedLibrary_def)
  with Some assms show ?thesis
    by (simp add: unloadLibrary_def Let_def split: SharedLibrary_unload.splits)
qed

lemma int_wrap_in_range:
  "- 2147483648 \<le> x \<Longrightarrow> x < 2147483648 \<Longrightarrow> int_wrap x = x"
  by (simp add: int_wrap_def)

lemma ClassLoader_loadLibrary_counts:
  assumes "getLibraryPath this s \<noteq> []"
  shows "class_loaders (snd (ClassLoader_loadLibrary os this s)) =
           (class_loaders s)
             (this := (class_loaders s this)
                \<lparr>load_ref_count' := int_wrap (load_ref_count' (class_loaders s this) + 1)\<rparr>)"
  using assms by (simp add: ClassLoader_loadLibrary_def Let_def)

lemma loadLibrary_times_counts:
  assumes "getLibraryPath this s \<noteq> []"
    and "0 \<le> load_ref_count' (class_loaders s this)"
    and "load_ref_count' (class_loaders s this) + int k < 2147483648"
  shows "class_loaders (loadLibrary_times os this k s) this =
           (class_loaders s this)
             \<lparr>load_ref_count' := load_ref_count' (class_loaders s this) + int k\<rparr>"
  using assms
proof (induction k arbitrary: s)
  case 0
  then show ?case by simp
next
  case (Suc k)
  let ?s1 = "snd (ClassLoader_loadLibrary os this s)"
  have w: "int_wrap (load_ref_count' (class_loaders s this) + 1)
             = load_ref_count' (class_loaders s this) + 1"
    using Suc.prems(2,3) by (simp add: int_wrap_in_range)
  have step: "class_loaders ?s1 this =
      (class_loaders s this)\<lparr>load_ref_count' := load_ref_count' (class_loaders s this) + 1\<rparr>"
    by (simp add: ClassLoader_loadLibrary_counts [OF Suc.prems(1)] w)
  then have a: "getLibraryPath this ?s1 \<noteq> []"
    using Suc.prems(1) by (simp add: getLibraryPath_def)
  have b: "0 \<le> load_ref_count' (class_loaders ?s1 this)"
    using step Suc.prems(2) by simp
  have c: "load_ref_count' (class_loaders ?s1 this) + int k < 2147483648"
    using step Suc.prems(3) by simp
  from Suc.IH [OF a b c] step show ?case by simp
qed

lemma ClassLoader_unloadLibrary_counts:
  assumes "getLibraryPath this s \<noteq> []"
    and "plugin_ref_count' (class_loaders s this) = 0"
    and "load_ref_count' (class_loaders s this) = int m"
    and "SharedLibrary_unload_library os (getLibraryPath this s) \<noteq> unload_runtime_error"
    and "int m < 2147483648"
  shows "fst (ClassLoader_unloadLibrary os this s) = Inr (int (m - 1))"
    and "class_loaders (snd (ClassLoader_unloadLibrary os this s)) this =
           (class_loaders s this)\<lparr>load_ref_count' := int (m - 1)\<rparr>"
proof -
  let ?s1 = "ClassLoader_call this
               (\<lambda>c. c\<lparr>load_ref_count' := int_wrap (load_ref_count' c - 1)\<rparr>) s"
  have w: "int_wrap (int m - 1) = int m - 1"
    using assms(5) by (simp add: int_wrap_in_range)
  have path: "getLibraryPath this ?s1 = getLibraryPath this s"
    by (simp add: getLibraryPath_def)
  have ret: "fst (unloadLibrary os (getLibraryPath this s) (Some this) ?s1) = Inr ()"
    by (rule unloadLibrary_returns [OF assms(4)])
  consider "m = 0" | "m = 1" | "2 \<le> m" by linarith
  then have "fst (ClassLoader_unloadLibrary os this s) = Inr (int (m - 1))
     \<and> class_loaders (snd (ClassLoader_unloadLibrary os this s)) this =
           (class_loaders s this)\<lparr>load_ref_count' := int (m - 1)\<rparr>"
  proof cases
    case 1
    with assms(1-3) w show ?thesis
      by (simp add: ClassLoader_unloadLibrary_def unloadLibraryInternal_def Let_def)
  next
    case 2
    obtain r s2 where u: "unloadLibrary os (getLibraryPath this s) (Some this) ?s1 = (r, s2)"
      by (cases "unloadLibrary os (getLibraryPath this s) (Some this) ?s1")
    with ret have r: "r = Inr ()" by simp
    have c: "class_loaders s2 = class_loaders ?s1"
      using class_loaders_unloadLibrary [of os "getLibraryPath this s" "Some this" ?s1] u by simp
    from 2 assms(1-3) u r c path w show ?thesis
      by (simp add: ClassLoader_unloadLibrary_def unloadLibraryInternal_def Let_def)
  next
    case 3
    with assms(1-3) w show ?thesis
      by (simp add: ClassLoader_unloadLibrary_def unloadLibraryInternal_def Let_def)
  qed
  then show "fst (ClassLoader_unloadLibrary os this s) = Inr (int (m - 1))"
    and "class_loaders (snd (ClassLoader_unloadLibrary os this s)) this =
           (class_loaders s this)\<lparr>load_ref_count' := int (m - 1)\<rparr>"
    by simp_all
qed

lemma unloadLibrary_times_counts:
  assumes "getLibraryPath this s \<noteq> []"
    and "plugin_ref_count' (class_loaders s this) = 0"
    and "load_ref_count' (class_loaders s this) = int m"
    and "SharedLibrary_unload_library os (getLibraryPath this s) \<noteq> unload_runtime_error"
    and "int m < 2147483648"
  shows "fst (unloadLibrary_times os this j s) = map (\<lambda>i. Inr (int (m - i))) [1..<Suc j]
       \<and> class_loaders (snd (unloadLibrary_times os this j s)) this =
           (class_loaders s this)\<lparr>load_ref_count' := int (m - j)\<rparr>"
  using assms
proof (induction j arbitrary: s m)
  case 0
  then show ?case by simp
next
  case (Suc j)
  let ?s1 = "snd (ClassLoader_unloadLibrary os this s)"
  note one = ClassLoader_unloadLibrary_counts [OF Suc.prems]
  have p: "getLibraryPath this ?s1 = getLibraryPath this s"
    using one(2) by (simp add: getLibraryPath_def)
  have a: "getLibraryPath this ?s1 \<noteq> []" using p Suc.prems(1) by simp
  have b: "plugin_ref_count' (class_loaders ?s1 this) = 0" using one(2) Suc.prems(2) by simp
  have c: "load_ref_count' (class_loaders ?s1 this) = int (m - 1)" using one(2) by simp
  have d: "SharedLibrary_unload_library os (getLibraryPath this ?s1) \<noteq> unload_runtime_error"
    using p Suc.prems(4) by simp
  have e: "int (m - 1) < 2147483648"
    using Suc.prems(5) by simp
  note ih = Suc.IH [OF a b c d e]
  have l: "[1..<Suc (Suc j)] = 1 # map Suc [1..<Suc j]"
    by (simp add: upt_conv_Cons map_Suc_upt del: upt_Suc)
  have "fst (unloadLibrary_times os this (Suc j) s)
          = Inr (int (m - 1)) # map (\<lambda>i. Inr (int (m - 1 - i))) [1..<Suc j]"
    using one(1) ih by (simp add: case_prod_beta Let_def)
  also have "\<dots> = map (\<lambda>i. Inr (int (m - i))) [1..<Suc (Suc j)]"
    unfolding l by (simp add: comp_def del: upt_Suc)
  finally have r: "fst (unloadLibrary_times os this (Suc j) s)
          = map (\<lambda>i. Inr (int (m - i))) [1..<Suc (Suc j)]" .
  have "class_loaders (snd (unloadLibrary_times os this (Suc j) s)) this
          = (class_loaders ?s1 this)\<lparr>load_ref_count' := int (m - 1 - j)\<rparr>"
    using ih by (simp add: case_prod_beta Let_def)
  then have q: "class_loaders (snd (unloadLibrary_times os this (Suc j) s)) this
          = (class_loaders s this)\<lparr>load_ref_count' := int (m - Suc j)\<rparr>"
    using one(2) by simp
  from r q show ?case by blast
qed

lemma results_split:
  "map (\<lambda>i. Inr (int (k - i)) :: exception + int) [1..<Suc (k + n)]
     = map (\<lambda>i. Inr (int (k - i))) [1..<Suc k] @ replicate n (Inr 0)"
proof (induction n)
  case 0
  then show ?case by simp
next
  case (Suc n)
  have "map (\<lambda>i. Inr (int (k - i)) :: exception + int) [1..<Suc (k + Suc n)]
          = map (\<lambda>i. Inr (int (k - i))) [1..<Suc (k + n)] @ [Inr 0]"
    by simp
  also have "\<dots> = map (\<lambda>i. Inr (int (k - i))) [1..<Suc k] @ replicate (Suc n) (Inr 0)"
    unfolding Suc.IH by (simp add: replicate_append_same)
  finally show ?case .
qed

text \<open>
  C6, as the claim states it, fails for a loader with the empty library path. Loader 0 of
  \<open>linked_library_loader\<close> has the empty library path; after two calls of loadLibrary its
  load reference count is still 0, so no call of unloadLibrary is needed, and the first of
  two following calls of unloadLibrary returns 0, not a positive count.
\<close>

theorem C6_empty_library_path_counterexample:
  "getLibraryPath 0 linked_library_loader = []
   \<and> load_ref_count'
        (class_loaders (loadLibrary_times example_platform 0 2 linked_library_loader) 0) = 0
   \<and> fst (unloadLibrary_times example_platform 0 2
            (loadLibrary_times example_platform 0 2 linked_library_loader)) = [Inr 0, Inr 0]"
  by code_simp

text \<open>
  C6, amended. Take a ClassLoader whose library path is not empty, whose load reference
  count and plugin reference count are 0, a platform on which closing its library does not
  throw, and a number k below \<open>2 ^ 31\<close>. After k calls of loadLibrary the load reference
  count is k. Of \<open>k + n\<close> calls of unloadLibrary that follow, the first k return
  \<open>k - 1\<close>, ..., 1, 0 in this order (so the first \<open>k - 1\<close> return a positive count and the
  k-th returns 0) and each of the n further calls returns 0; after j of these calls the
  load reference count is \<open>k - j\<close>, and 0 when j exceeds k.
\<close>

theorem C6_k_loads_need_k_unloads:
  assumes "getLibraryPath this s \<noteq> []"
    and "load_ref_count' (class_loaders s this) = 0"
    and "plugin_ref_count' (class_loaders s this) = 0"
    and "SharedLibrary_unload_library os (getLibraryPath this s) \<noteq> unload_runtime_error"
    and "int k < 2 ^ 31"
  shows "load_ref_count' (class_loaders (loadLibrary_times os this k s) this) = int k
       \<and> fst (unloadLibrary_times os this (k + n) (loadLibrary_times os this k s))
           = map (\<lambda>i. Inr (int (k - i))) [1..<Suc k] @ replicate n (Inr 0)
       \<and> load_ref_count'
           (class_loaders (snd (unloadLibrary_times os this j (loadLibrary_times os this k s))) this)
           = int (k - j)"
proof -
  let ?sk = "loadLibrary_times os this k s"
  have k: "int k < 2147483648" using assms(5) by simp
  have z: "0 \<le> load_ref_count' (class_loaders s this)" using assms(2) by simp
  have m: "load_ref_count' (class_loaders s this) + int k < 2147483648"
    using assms(2) k by simp
  note lk = loadLibrary_times_counts [OF assms(1) z m, of os]
  have a: "getLibraryPath this ?sk \<noteq> []" using lk assms(1) by (simp add: getLibraryPath_def)
  have p: "getLibraryPath this ?sk = getLibraryPath this s" using lk by (simp add: getLibraryPath_def)
  have b: "plugin_ref_count' (class_loaders ?sk this) = 0" using lk assms(3) by simp
  have c: "load_ref_count' (class_loaders ?sk this) = int k" using lk assms(2) by simp
  have d: "SharedLibrary_unload_library os (getLibraryPath this ?sk) \<noteq> unload_runtime_error"
    using p assms(4) by simp
  note u = unloadLibrary_times_counts [OF a b c d k]
  have r: "fst (unloadLibrary_times os this (k + n) ?sk)
             = map (\<lambda>i. Inr (int (k - i))) [1..<Suc (k + n)]"
    using u [of "k + n"] by blast
  have r': "fst (unloadLibrary_times os this (k + n) ?sk)
             = map (\<lambda>i. Inr (int (k - i))) [1..<Suc k] @ replicate n (Inr 0)"
    using r by (simp only: results_split)
  have q: "load_ref_count' (class_loaders (snd (unloadLibrary_times os this j ?sk)) this)
             = int (k - j)"
    using u [of j] by simp
  from c r' q show ?thesis by blast
qed

theorem C6_k_loads_need_k_unloads_witness:
  "getLibraryPath 0 on_demand_loader = ''/p/libA''
   \<and> load_ref_count' (class_loaders on_demand_loader 0) = 0
   \<and> plugin_ref_count' (class_loaders on_demand_loader 0) = 0
   \<and> load_ref_count' (class_loaders (loadLibrary_times example_platform 0 3 on_demand_loader) 0) = 3
   \<and> fst (unloadLibrary_times example_platform 0 5
            (loadLibrary_times example_platform 0 3 on_demand_loader))
       = [Inr 2, Inr 1, Inr 0, Inr 0, Inr 0]
   \<and> load_ref_count'
        (class_loaders
           (snd (unloadLibrary_times example_platform 0 2
                   (loadLibrary_times example_platform 0 3 on_demand_loader))) 0) = 1"
proof -
  have p: "getLibraryPath 0 on_demand_loader = ''/p/libA''"
    by code_simp
  have h1: "getLibraryPath 0 on_demand_loader \<noteq> []"
    by (simp add: p)
  have h2: "load_ref_count' (class_loaders on_demand_loader 0) = 0"
    by code_simp
  have h3: "plugin_ref_count' (class_loaders on_demand_loader 0) = 0"
    by code_simp
  have h4: "SharedLibrary_unload_library example_platform (getLibraryPath 0 on_demand_loader)
              \<noteq> unload_runtime_error"
    by (simp add: example_platform_def)
  have h5: "int 3 < 2 ^ 31"
    by simp
  have l: "map (\<lambda>i. Inr (int (3 - i)) :: exception + int) [1..<Suc 3] @ replicate 2 (Inr 0)
             = [Inr 2, Inr 1, Inr 0, Inr 0, Inr 0]"
    by code_simp
  have a: "(3::nat) + 2 = 5" by simp
  from C6_k_loads_need_k_unloads [OF h1 h2 h3 h4 h5, of 2 2] p h2 h3 l a
  show ?thesis by simp
qed

section \<open>The non-pure flag\<close>

text \<open>
  No function that class\_loader\_core or ClassLoader runs on a call lowers the flag: the
  only call of the setter is the one of registerPlugin, with the value true.
\<close>

lemma flag_addClassLoaderOwner [simp]:
  "hasANonPurePluginLibraryBeenOpenedReference
     (addClassLoaderOwnerForAllExistingMetaObjectsForLibrary library_path loader s)
     = hasANonPurePluginLibraryBeenOpenedReference s"
  unfolding addClassLoaderOwnerForAllExistingMetaObjectsForLibrary_def
  by (rule foldl_preserves) simp

lemma flag_revive [simp]:
  "hasANonPurePluginLibraryBeenOpenedReference
     (revivePreviouslyCreateMetaobjectsFromGraveyard library_path loader s)
     = hasANonPurePluginLibraryBeenOpenedReference s"
  unfolding revivePreviouslyCreateMetaobjectsFromGraveyard_def
  by (rule foldl_preserves) (simp add: Let_def case_prod_beta)

lemma flag_purge_in [simp]:
  "hasANonPurePluginLibraryBeenOpenedReference
     (snd (purgeGraveyardOfMetaobjects_in library_path graveyard s))
     = hasANonPurePluginLibraryBeenOpenedReference s"
  by (induction graveyard arbitrary: s) (simp_all add: case_prod_beta)

lemma flag_purge [simp]:
  "hasANonPurePluginLibraryBeenOpenedReference (purgeGraveyardOfMetaobjects library_path loader s)
     = hasANonPurePluginLibraryBeenOpenedReference s"
  by (simp add: purgeGraveyardOfMetaobjects_def Let_def case_prod_beta)

lemma flag_destroy_in [simp]:
  "hasANonPurePluginLibraryBeenOpenedReference
     (snd (destroyMetaObjectsForLibrary_in library_path factories loader s))
     = hasANonPurePluginLibraryBeenOpenedReference s"
  by (induction library_path factories loader s rule: destroyMetaObjectsForLibrary_in.induct)
     (simp_all add: Let_def case_prod_beta)

lemma flag_destroy_maps [simp]:
  "hasANonPurePluginLibraryBeenOpenedReference
     (snd (destroyMetaObjectsForLibrary_maps library_path factory_map_map loader s))
     = hasANonPurePluginLibraryBeenOpenedReference s"
proof (induction factory_map_map arbitrary: s)
  case Nil
  show ?case by simp
next
  case (Cons a m)
  obtain base factories where a: "a = (base, factories)" by (cases a)
  show ?case unfolding a by (simp add: Let_def case_prod_beta Cons.IH)
qed

lemma flag_destroy [simp]:
  "hasANonPurePluginLibraryBeenOpenedReference (destroyMetaObjectsForLibrary library_path loader s)
     = hasANonPurePluginLibraryBeenOpenedReference s"
  by (simp add: destroyMetaObjectsForLibrary_def Let_def case_prod_beta)

lemma flag_static_destructors [simp]:
  "hasANonPurePluginLibraryBeenOpenedReference (static_destructors holders s)
     = hasANonPurePluginLibraryBeenOpenedReference s"
  unfolding static_destructors_def by (rule foldl_preserves) simp

lemma flag_createInstance [simp]:
  "hasANonPurePluginLibraryBeenOpenedReference
     (snd (createInstance typeid_Base derived_class_name loader s))
     = hasANonPurePluginLibraryBeenOpenedReference s"
  by (simp add: createInstance_def Let_def case_prod_beta split: option.splits)

lemma flag_getAvailableClasses [simp]:
  "hasANonPurePluginLibraryBeenOpenedReference (snd (getAvailableClasses typeid_Base loader s))
     = hasANonPurePluginLibraryBeenOpenedReference s"
  by (simp add: getAvailableClasses_def Let_def case_prod_beta)

lemma flag_unloadLibrary [simp]:
  "hasANonPurePluginLibraryBeenOpenedReference (snd (unloadLibrary os library_path loader s))
     = hasANonPurePluginLibraryBeenOpenedReference s"
  by (simp add: unloadLibrary_def Let_def case_prod_beta
      split: SharedLibrary_unload.splits option.splits)

lemma flag_registerPlugin:
  "hasANonPurePluginLibraryBeenOpenedReference s \<Longrightarrow>
   hasANonPurePluginLibraryBeenOpenedReference
     (snd (registerPlugin typeid_Base class_name base_class_name s))"
  by (simp add: registerPlugin_def Let_def case_prod_beta)

lemma flag_static_initializers:
  "hasANonPurePluginLibraryBeenOpenedReference s \<Longrightarrow>
   hasANonPurePluginLibraryBeenOpenedReference (snd (static_initializers xs s))"
  by (induction xs arbitrary: s)
     (simp_all add: Let_def case_prod_beta ProxyExec_constructor_def flag_registerPlugin)

lemma flag_loadLibrary:
  "hasANonPurePluginLibraryBeenOpenedReference s \<Longrightarrow>
   hasANonPurePluginLibraryBeenOpenedReference (snd (loadLibrary os library_path loader s))"
  by (simp add: loadLibrary_def Let_def case_prod_beta flag_static_initializers
      split: SharedLibrary_load.splits)

lemma flag_ClassLoader_loadLibrary:
  "hasANonPurePluginLibraryBeenOpenedReference s \<Longrightarrow>
   hasANonPurePluginLibraryBeenOpenedReference (snd (ClassLoader_loadLibrary os this s))"
  by (simp add: ClassLoader_loadLibrary_def Let_def flag_loadLibrary)

lemma flag_unloadLibraryInternal [simp]:
  "hasANonPurePluginLibraryBeenOpenedReference
     (snd (unloadLibraryInternal os this lock_plugin_ref_count s))
     = hasANonPurePluginLibraryBeenOpenedReference s"
proof -
  let ?s1 = "ClassLoader_call this
               (\<lambda>c. c\<lparr>load_ref_count' := int_wrap (load_ref_count' c - 1)\<rparr>) s"
  have "hasANonPurePluginLibraryBeenOpenedReference
          (snd (unloadLibrary os (getLibraryPath this ?s1) (Some this) ?s1))
        = hasANonPurePluginLibraryBeenOpenedReference s"
    by simp
  then show ?thesis
    by (cases "unloadLibrary os (getLibraryPath this ?s1) (Some this) ?s1")
       (auto simp add: unloadLibraryInternal_def Let_def split: sum.splits)
qed

lemma flag_ClassLoader_unloadLibrary [simp]:
  "hasANonPurePluginLibraryBeenOpenedReference (snd (ClassLoader_unloadLibrary os this s))
     = hasANonPurePluginLibraryBeenOpenedReference s"
  by (simp add: ClassLoader_unloadLibrary_def)

lemma flag_new_ClassLoader:
  assumes "hasANonPurePluginLibraryBeenOpenedReference s"
  shows "hasANonPurePluginLibraryBeenOpenedReference
           (snd (new_ClassLoader os library_path ondemand_load_unload s))"
proof -
  let ?s2 = "CONSOLE_BRIDGE_logDebug Constructing_new_ClassLoader
               (s\<lparr>class_loaders := (class_loaders s)
                     (class_loaders_lim s :=
                        \<lparr> ondemand_load_unload' = ondemand_load_unload,
                          library_path' = library_path,
                          load_ref_count' = 0,
                          plugin_ref_count' = 0 \<rparr>),
                   class_loaders_lim := Suc (class_loaders_lim s)\<rparr>)"
  have "hasANonPurePluginLibraryBeenOpenedReference ?s2" using assms by simp
  then have "hasANonPurePluginLibraryBeenOpenedReference
               (snd (ClassLoader_loadLibrary os (class_loaders_lim s) ?s2))"
    by (rule flag_ClassLoader_loadLibrary)
  then show ?thesis
    using assms
    by (cases "ClassLoader_loadLibrary os (class_loaders_lim s) ?s2")
       (auto simp add: new_ClassLoader_def Let_def split: sum.splits)
qed

lemma flag_createRawInstance:
  assumes "hasANonPurePluginLibraryBeenOpenedReference s"
  shows "hasANonPurePluginLibraryBeenOpenedReference
           (snd (createRawInstance os typeid_Base derived_class_name managed this s))"
proof -
  define s2 where "s2 =
    (let s1 = (if \<not> managed then setUnmanagedInstanceBeenCreated True s else s)
     in if managed \<and> hasUnmanagedInstanceBeenCreated s1 \<and> isOnDemandLoadUnloadEnabled this s1
        then CONSOLE_BRIDGE_logInform Managed_instance_after_unmanaged s1
        else s1)"
  define r3 where "r3 =
    (if \<not> ClassLoader_isLibraryLoaded this s2
     then ClassLoader_loadLibrary os this s2 else (Inr (), s2))"
  have f2: "hasANonPurePluginLibraryBeenOpenedReference s2"
    using assms by (simp add: s2_def Let_def)
  have f3: "hasANonPurePluginLibraryBeenOpenedReference (snd r3)"
    using f2 by (simp add: r3_def flag_ClassLoader_loadLibrary)
  have f4: "hasANonPurePluginLibraryBeenOpenedReference
              (snd (createInstance typeid_Base derived_class_name (Some this) (snd r3)))"
    using f3 by simp
  have "createRawInstance os typeid_Base derived_class_name managed this s =
          (case r3 of
             (Inl e, s3) \<Rightarrow> (Inl e, s3)
           | (Inr u, s3) \<Rightarrow>
               (case createInstance typeid_Base derived_class_name (Some this) s3 of
                  (Inl e, s4) \<Rightarrow> (Inl e, s4)
                | (Inr obj, s4) \<Rightarrow>
                    (Inr obj,
                     if managed
                     then ClassLoader_call this
                            (\<lambda>c. c\<lparr>plugin_ref_count' := int_wrap (plugin_ref_count' c + 1)\<rparr>) s4
                     else s4)))"
    by (simp add: createRawInstance_def s2_def r3_def Let_def)
  moreover obtain e3 s3 where r: "r3 = (e3, s3)"
    by (cases r3)
  moreover obtain e4 s4 where c: "createInstance typeid_Base derived_class_name (Some this) s3 = (e4, s4)"
    by (cases "createInstance typeid_Base derived_class_name (Some this) s3")
  moreover have "hasANonPurePluginLibraryBeenOpenedReference s3"
    using f3 r by simp
  moreover have "hasANonPurePluginLibraryBeenOpenedReference s4"
    using f4 r c by simp
  ultimately show ?thesis
    by (cases e3; cases e4) simp_all
qed

lemma flag_onPluginDeletion [simp]:
  "hasANonPurePluginLibraryBeenOpenedReference (snd (onPluginDeletion os obj this s))
     = hasANonPurePluginLibraryBeenOpenedReference s"
proof (cases obj)
  case None
  then show ?thesis by (simp add: onPluginDeletion_def Let_def)
next
  case (Some deleted)
  let ?s2 = "ClassLoader_call this
               (\<lambda>c. c\<lparr>plugin_ref_count' := int_wrap (plugin_ref_count' c - 1)\<rparr>)
               (CONSOLE_BRIDGE_logDebug Calling_onPluginDeletion s)"
  have "hasANonPurePluginLibraryBeenOpenedReference (snd (unloadLibraryInternal os this False ?s2))
          = hasANonPurePluginLibraryBeenOpenedReference s"
    by simp
  with Some show ?thesis
    by (cases "unloadLibraryInternal os this False ?s2")
       (auto simp add: onPluginDeletion_def Let_def split: sum.splits)
qed

lemma flag_call_step:
  "hasANonPurePluginLibraryBeenOpenedReference s \<Longrightarrow>
   hasANonPurePluginLibraryBeenOpenedReference (call_step os c s)"
  by (cases c)
     (simp_all add: flag_registerPlugin flag_loadLibrary flag_new_ClassLoader
        flag_ClassLoader_loadLibrary flag_createRawInstance ClassLoader_destructor_def)

lemma flag_calls_run:
  "hasANonPurePluginLibraryBeenOpenedReference s \<Longrightarrow>
   hasANonPurePluginLibraryBeenOpenedReference (calls_run calls s)"
  unfolding calls_run_def
  by (induction calls arbitrary: s) (simp_all add: flag_call_step)

lemma unloadLibrary_refused:
  assumes "hasANonPurePluginLibraryBeenOpened s"
  shows "unloadLibrary os library_path loader s =
           (Inr (), s\<lparr>console_bridge := console_bridge s @ [(Debug, Cannot_unload_any_library)]\<rparr>)"
  using assms by (simp add: unloadLibrary_def CONSOLE_BRIDGE_log_def)

text \<open>
  C7, as the claim states it, fails in the level of the message. In \<open>non_pure_process\<close>
  the flag is raised and /p/libA is open for loader 0. unloadLibrary for /p/libA and
  loader 0 returns, and the state after it is the state before it with one more console
  message, which has level Debug; no message of level Warn is on the console.
\<close>

theorem C7_refusal_is_logged_at_Debug_counterexample:
  "hasANonPurePluginLibraryBeenOpened non_pure_process
   \<and> getLoadedLibraryVector non_pure_process = [(''/p/libA'', SharedLibrary ''/p/libA'')]
   \<and> unloadLibrary example_platform ''/p/libA'' (Some 0) non_pure_process
       = (Inr (), non_pure_process
                    \<lparr>console_bridge :=
                       console_bridge non_pure_process @ [(Debug, Cannot_unload_any_library)]\<rparr>)
   \<and> filter (\<lambda>e. fst e = Warn) (console_bridge non_pure_process @ [(Debug, Cannot_unload_any_library)])
       = []"
proof -
  have h: "hasANonPurePluginLibraryBeenOpened non_pure_process"
    by code_simp
  have v: "getLoadedLibraryVector non_pure_process = [(''/p/libA'', SharedLibrary ''/p/libA'')]"
    by code_simp
  have w: "filter (\<lambda>e. fst e = Warn) (console_bridge non_pure_process) = []"
    by code_simp
  from h v w unloadLibrary_refused [OF h, of example_platform "''/p/libA''" "Some 0"]
  show ?thesis by simp
qed

text \<open>
  C7, amended. Once the non-pure flag is true it stays true through every sequence of
  calls of registerPlugin, loadLibrary, unloadLibrary, createInstance and
  getAvailableClasses of class\_loader\_core and of the constructor, loadLibrary,
  unloadLibrary, createRawInstance, onPluginDeletion and the destructor of ClassLoader;
  and every unloadLibrary of class\_loader\_core after such a sequence, for every library
  path and every loader, returns normally and leaves the state as it was but for one more
  console message, of level Debug: the vector of loaded libraries, the factory maps and
  the graveyard are as before, and the platform is not asked to close anything.
\<close>

theorem C7_unload_refused_once_non_pure:
  assumes "hasANonPurePluginLibraryBeenOpened s"
  shows "hasANonPurePluginLibraryBeenOpened (calls_run calls s)
       \<and> unloadLibrary os library_path loader (calls_run calls s) =
           (Inr (),
            (calls_run calls s)
              \<lparr>console_bridge :=
                 console_bridge (calls_run calls s) @ [(Debug, Cannot_unload_any_library)]\<rparr>)
       \<and> getLoadedLibraryVector (snd (unloadLibrary os library_path loader (calls_run calls s)))
           = getLoadedLibraryVector (calls_run calls s)
       \<and> getGlobalPluginBaseToFactoryMapMap
            (snd (unloadLibrary os library_path loader (calls_run calls s)))
           = getGlobalPluginBaseToFactoryMapMap (calls_run calls s)
       \<and> getMetaObjectGraveyard (snd (unloadLibrary os library_path loader (calls_run calls s)))
           = getMetaObjectGraveyard (calls_run calls s)"
proof -
  have f: "hasANonPurePluginLibraryBeenOpened (calls_run calls s)"
    using assms flag_calls_run [of s calls]
    by (simp add: hasANonPurePluginLibraryBeenOpened_def)
  note r = unloadLibrary_refused [OF f, of os library_path loader]
  from f r show ?thesis by simp
qed

theorem C7_unload_refused_once_non_pure_witness:
  "hasANonPurePluginLibraryBeenOpened non_pure_process
   \<and> hasANonPurePluginLibraryBeenOpened
        (calls_run [(example_platform, loadLibrary_call ''/p/libB'' (Some 0)),
                    (example_platform, ClassLoader_unloadLibrary_call 0)] non_pure_process)
   \<and> fst (unloadLibrary example_platform ''/p/libB'' (Some 0)
            (calls_run [(example_platform, loadLibrary_call ''/p/libB'' (Some 0)),
                        (example_platform, ClassLoader_unloadLibrary_call 0)] non_pure_process))
       = Inr ()
   \<and> getLoadedLibraryVector
        (snd (unloadLibrary example_platform ''/p/libB'' (Some 0)
                (calls_run [(example_platform, loadLibrary_call ''/p/libB'' (Some 0)),
                            (example_platform, ClassLoader_unloadLibrary_call 0)] non_pure_process)))
       = getLoadedLibraryVector
           (calls_run [(example_platform, loadLibrary_call ''/p/libB'' (Some 0)),
                       (example_platform, ClassLoader_unloadLibrary_call 0)] non_pure_process)"
proof -
  let ?calls = "[(example_platform, loadLibrary_call ''/p/libB'' (Some 0)),
                 (example_platform, ClassLoader_unloadLibrary_call 0)]"
  have h: "hasANonPurePluginLibraryBeenOpened non_pure_process"
    by code_simp
  from C7_unload_refused_once_non_pure [OF h, of ?calls example_platform "''/p/libB''" "Some 0"] h
  show ?thesis by simp
qed

section \<open>The map of a MultiLibraryClassLoader\<close>

lemma map_find_None_iff: "map_find k m = None \<longleftrightarrow> k \<notin> fst ` set m"
  by (simp add: map_find_def map_of_eq_None_iff)

lemma set_map_assign:
  "fst ` set (map_assign k v m) = insert k (fst ` set m)"
proof (induction m)
  case Nil
  show ?case by simp
next
  case (Cons a m)
  obtain k' v' where a: "a = (k', v')" by (cases a)
  show ?case unfolding a using Cons.IH by auto
qed

lemma std_map_inv_map_assign:
  "std_map_inv m \<Longrightarrow> std_map_inv (map_assign k v m)"
proof (induction m)
  case Nil
  then show ?case by (simp add: std_map_inv_def)
next
  case (Cons a m)
  obtain k' v' where a: "a = (k', v')" by (cases a)
  have tl: "std_map_inv m" using Cons.prems by (simp add: std_map_inv_def)
  have keys: "\<forall>x \<in> fst ` set m. k' < x" using Cons.prems by (auto simp: std_map_inv_def a)
  show ?case
  proof (cases "k < k'")
    case True
    then show ?thesis using Cons.prems keys by (auto simp: std_map_inv_def a)
  next
    case False
    show ?thesis
    proof (cases "k = k'")
      case True
      then show ?thesis using Cons.prems by (simp add: std_map_inv_def a)
    next
      case ne: False
      with False have lt: "k' < k" by simp
      have "\<forall>x \<in> fst ` set (map_assign k v m). k' < x"
        using keys lt by (simp add: set_map_assign)
      then show ?thesis
        using Cons.IH [OF tl] False ne by (auto simp: std_map_inv_def a)
    qed
  qed
qed

lemma filter_map_assign_None:
  assumes "k \<notin> fst ` set m" and "\<not> P (k, v)"
  shows "filter P (map_assign k v m) = filter P m"
  using assms
proof (induction m)
  case Nil
  then show ?case by simp
next
  case (Cons a m)
  obtain k' v' where a: "a = (k', v')" by (cases a)
  show ?case using Cons.IH Cons.prems unfolding a by auto
qed

lemma std_map_inv_MultiLibraryClassLoader:
  "std_map_inv (active_class_loaders' (MultiLibraryClassLoader enable_ondemand_loadunload))"
  by (simp add: MultiLibraryClassLoader_def std_map_inv_def)

lemma std_map_inv_MultiLibraryClassLoader_loadLibrary:
  assumes "std_map_inv (active_class_loaders' impl)"
  shows "std_map_inv
           (active_class_loaders'
              (fst (snd (MultiLibraryClassLoader_loadLibrary os library_path impl s))))"
  using assms
  by (cases "new_ClassLoader os library_path
                (MultiLibraryClassLoader_isOnDemandLoadUnloadEnabled impl) s")
     (auto simp add: MultiLibraryClassLoader_loadLibrary_def std_map_inv_map_assign
        split: sum.splits)

lemma createInstance_from_unknown_library:
  assumes "map_find library_path (active_class_loaders' impl) = None"
  shows "MultiLibraryClassLoader_createInstance_from os typeid_Base class_name library_path impl s
           = (Inl NoClassLoaderExistsException,
              impl\<lparr>active_class_loaders' :=
                     map_assign library_path None (active_class_loaders' impl)\<rparr>,
              s)"
  using assms
  by (simp add: MultiLibraryClassLoader_createInstance_from_def getClassLoaderForLibrary_def
      map_index_def)

lemma getRegisteredLibraries_after_unknown_library:
  assumes "map_find library_path (active_class_loaders' impl) = None"
  shows "getRegisteredLibraries
           (fst (snd (MultiLibraryClassLoader_createInstance_from os typeid_Base class_name
                        library_path impl s)))
           = getRegisteredLibraries impl"
    and "isLibraryAvailable library_name
           (fst (snd (MultiLibraryClassLoader_createInstance_from os typeid_Base class_name
                        library_path impl s)))
           = isLibraryAvailable library_name impl"
proof -
  have absent: "library_path \<notin> fst ` set (active_class_loaders' impl)"
    using assms by (simp add: map_find_None_iff)
  have same: "filter (\<lambda>it. snd it \<noteq> None)
                (map_assign library_path None (active_class_loaders' impl))
              = filter (\<lambda>it. snd it \<noteq> None) (active_class_loaders' impl)"
    by (rule filter_map_assign_None [OF absent]) simp
  show 1: "getRegisteredLibraries
           (fst (snd (MultiLibraryClassLoader_createInstance_from os typeid_Base class_name
                        library_path impl s)))
           = getRegisteredLibraries impl"
    unfolding createInstance_from_unknown_library [OF assms] getRegisteredLibraries_def
    using same by simp
  show "isLibraryAvailable library_name
           (fst (snd (MultiLibraryClassLoader_createInstance_from os typeid_Base class_name
                        library_path impl s)))
           = isLibraryAvailable library_name impl"
    unfolding isLibraryAvailable_def 1 ..
qed

lemma map_assign_member: "(k, v) \<in> set (map_assign k v m)"
proof (induction m)
  case Nil
  show ?case by simp
next
  case (Cons a m)
  obtain k' v' where a: "a = (k', v')" by (cases a)
  show ?case unfolding a using Cons.IH by auto
qed

lemma getAvailableClasses_loop_null:
  "None \<in> set loaders \<Longrightarrow>
   fst (MultiLibraryClassLoader_getAvailableClasses_loop typeid_Base loaders s)
     = Inl NullPointerDereference"
proof (induction loaders arbitrary: s)
  case Nil
  then show ?case by simp
next
  case (Cons l loaders)
  show ?case
  proof (cases l)
    case None
    then show ?thesis by simp
  next
    case (Some loader)
    with Cons.prems have "None \<in> set loaders" by simp
    from Cons.IH [OF this, of "snd (ClassLoader_getAvailableClasses typeid_Base loader s)"]
    show ?thesis
      by (cases "MultiLibraryClassLoader_getAvailableClasses_loop typeid_Base loaders
                   (snd (ClassLoader_getAvailableClasses typeid_Base loader s))")
         (simp add: Some case_prod_beta)
  qed
qed

text \<open>
  The two-argument createInstance for a library path that the map does not hold throws
  NoClassLoaderExistsException and leaves a null entry for the path in the map.
  getRegisteredLibraries is as before, but getAllAvailableClassLoaders now holds the null
  pointer, and getAvailableClasses calls through it.
\<close>

lemma failed_create_leaves_a_null_loader:
  assumes "map_find library_path (active_class_loaders' impl) = None"
  shows "MultiLibraryClassLoader_createInstance_from os typeid_Base class_name library_path impl s
           = (Inl NoClassLoaderExistsException,
              impl\<lparr>active_class_loaders' :=
                     map_assign library_path None (active_class_loaders' impl)\<rparr>,
              s)
       \<and> getRegisteredLibraries
           (impl\<lparr>active_class_loaders' :=
                   map_assign library_path None (active_class_loaders' impl)\<rparr>)
           = getRegisteredLibraries impl
       \<and> None \<in> set (getAllAvailableClassLoaders
                       (impl\<lparr>active_class_loaders' :=
                               map_assign library_path None (active_class_loaders' impl)\<rparr>))
       \<and> fst (MultiLibraryClassLoader_getAvailableClasses typeid_Base'
                (impl\<lparr>active_class_loaders' :=
                        map_assign library_path None (active_class_loaders' impl)\<rparr>) s')
           = Inl NullPointerDereference"
proof -
  let ?impl1 = "impl\<lparr>active_class_loaders' :=
                       map_assign library_path None (active_class_loaders' impl)\<rparr>"
  note 1 = createInstance_from_unknown_library [OF assms, of os typeid_Base class_name s]
  from getRegisteredLibraries_after_unknown_library(1) [OF assms, of os typeid_Base class_name s]
  have 2: "getRegisteredLibraries ?impl1 = getRegisteredLibraries impl"
    unfolding 1 by simp
  have "(library_path, None) \<in> set (active_class_loaders' ?impl1)"
    by (simp add: map_assign_member)
  then have 3: "None \<in> set (getAllAvailableClassLoaders ?impl1)"
    unfolding getAllAvailableClassLoaders_def by force
  have 4: "fst (MultiLibraryClassLoader_getAvailableClasses typeid_Base' ?impl1 s')
             = Inl NullPointerDereference"
    unfolding MultiLibraryClassLoader_getAvailableClasses_def
    by (rule getAvailableClasses_loop_null [OF 3])
  from 1 2 3 4 show ?thesis by blast
qed

text \<open>
  C10, on the code. The MultiLibraryClassLoader of \<open>multi_loader_of_libB\<close> has loaded
  /p/libB only; its one-argument createInstance creates a Bar and its getAvailableClasses
  returns Bar. The two-argument createInstance for /p/libA throws
  NoClassLoaderExistsException. Afterwards getRegisteredLibraries still returns /p/libB
  only, but the map holds a null loader for /p/libA, and both getAvailableClasses and the
  one-argument createInstance call a member function through the null pointer.
\<close>

theorem C10_failed_create_leaves_a_null_loader:
  "active_class_loaders' (fst multi_loader_of_libB) = [(''/p/libB'', Some 0)]
   \<and> fst (MultiLibraryClassLoader_createInstance example_platform ''4Base'' ''Bar''
            (fst multi_loader_of_libB) (snd multi_loader_of_libB)) = Inr (Plugin ''Bar'')
   \<and> fst (MultiLibraryClassLoader_getAvailableClasses ''4Base''
            (fst multi_loader_of_libB) (snd multi_loader_of_libB)) = Inr [''Bar'']
   \<and> MultiLibraryClassLoader_createInstance_from example_platform ''4Base'' ''Bar''
            ''/p/libA'' (fst multi_loader_of_libB) (snd multi_loader_of_libB)
       = (Inl NoClassLoaderExistsException, multi_loader_after_failed_create,
          snd multi_loader_of_libB)
   \<and> active_class_loaders' multi_loader_after_failed_create
       = [(''/p/libA'', None), (''/p/libB'', Some 0)]
   \<and> getRegisteredLibraries multi_loader_after_failed_create = [''/p/libB'']
   \<and> fst (MultiLibraryClassLoader_getAvailableClasses ''4Base''
            multi_loader_after_failed_create (snd multi_loader_of_libB))
       = Inl NullPointerDereference
   \<and> fst (MultiLibraryClassLoader_createInstance example_platform ''4Base'' ''Bar''
            multi_loader_after_failed_create (snd multi_loader_of_libB))
       = Inl NullPointerDereference"
proof -
  let ?impl = "fst multi_loader_of_libB" and ?s = "snd multi_loader_of_libB"
  have m: "active_class_loaders' ?impl = [(''/p/libB'', Some 0)]"
    by code_simp
  have h: "map_find ''/p/libA'' (active_class_loaders' ?impl) = None"
    unfolding m by code_simp
  have c: "fst (MultiLibraryClassLoader_createInstance example_platform ''4Base'' ''Bar'' ?impl ?s)
             = Inr (Plugin ''Bar'')"
    by code_simp
  have a: "fst (MultiLibraryClassLoader_getAvailableClasses ''4Base'' ?impl ?s) = Inr [''Bar'']"
    by code_simp
  note t = failed_create_leaves_a_null_loader
             [OF h, of example_platform "''4Base''" "''Bar''" ?s "''4Base''" ?s]
  have i: "multi_loader_after_failed_create
             = ?impl\<lparr>active_class_loaders' :=
                        map_assign ''/p/libA'' None (active_class_loaders' ?impl)\<rparr>"
    unfolding multi_loader_after_failed_create_def using t by simp
  have m1: "active_class_loaders' multi_loader_after_failed_create
              = [(''/p/libA'', None), (''/p/libB'', Some 0)]"
    unfolding i by (simp add: m)
  have r: "getRegisteredLibraries multi_loader_after_failed_create = [''/p/libB'']"
    unfolding getRegisteredLibraries_def m1 by simp
  have n: "fst (MultiLibraryClassLoader_createInstance example_platform ''4Base'' ''Bar''
                 multi_loader_after_failed_create ?s) = Inl NullPointerDereference"
    by (simp add: MultiLibraryClassLoader_createInstance_def getClassLoaderForClass_def
        getAllAvailableClassLoaders_def m1 Let_def)
  from t m c a m1 r n show ?thesis
    unfolding i [symmetric] by simp
qed

section \<open>The walk of getClassLoaderForClass\<close>
















end
